theory Spec2Isabelle
  imports Complex_Main
begin

section \<open>Errors and Python primitives\<close>

text \<open>
  Every exception the modelled code can raise is a value. \<open>PyException\<close> is the plain
  \<^verbatim>\<open>Exception(msg)\<close> that \<^verbatim>\<open>CandidateSolution.set_content\<close> raises.
\<close>

datatype error =
    PyException string
  | NotImplementedError
  | EvoException string
  | EmptyBufferException
  | IndexError
  | ZeroDivisionError
  | ValueError
  | TypeError
  | AssertionError

text \<open>Python's true division \<^verbatim>\<open>a / b\<close>: a zero divisor raises.\<close>

definition py_truediv :: "real \<Rightarrow> real \<Rightarrow> error + real" where
  "py_truediv a b = (if b = 0 then Inl ZeroDivisionError else Inr (a / b))"

text \<open>Python's \<^verbatim>\<open>xs[i]\<close>: a negative index counts from the end, out of range raises.\<close>

definition py_index :: "'a list \<Rightarrow> int \<Rightarrow> error + 'a" where
  "py_index xs i =
     (if 0 \<le> i \<and> i < int (length xs) then Inr (xs ! nat i)
      else if i < 0 \<and> - int (length xs) \<le> i then Inr (xs ! nat (int (length xs) + i))
      else Inl IndexError)"

section \<open>CandidateSolution (pcgsepy/lsystem/solution.py)\<close>

text \<open>
  Modelled from the spec: the class \<^verbatim>\<open>Structure\<close> (pcgsepy/structure.py) is not
  among the sources. The modelled code reads two of its attributes, \<^verbatim>\<open>_blocks\<close>
  (a dictionary from grid positions to blocks, here an association list to block type
  names) and \<^verbatim>\<open>_max_dims\<close>; an instance is truthy, as a Python object without
  \<^verbatim>\<open>__bool__\<close> and \<^verbatim>\<open>__len__\<close> is.
\<close>

record Structure =
  priv_blocks :: "((int \<times> int \<times> int) \<times> string) list"
  priv_max_dims :: "int \<times> int \<times> int"

text \<open>
  The slots of \<^verbatim>\<open>CandidateSolution\<close> that the modelled functions read or write.
  \<open>priv_content\<close> is \<^verbatim>\<open>_content\<close> (\<open>None\<close> is Python's \<^verbatim>\<open>None\<close>).
\<close>

record CandidateSolution =
  string :: string
  priv_content :: "Structure option"
  age :: int
  b_descs :: "real \<times> real"
  c_fitness :: real
  fitness :: "real list"
  is_feasible :: bool
  ncv :: int
  representation :: "real list"
  n_blocks :: nat
  content_size :: "int \<times> int \<times> int"

text \<open>\<^verbatim>\<open>CandidateSolution.__init__(string, content)\<close>.\<close>

definition CandidateSolution_init :: "string \<Rightarrow> Structure option \<Rightarrow> CandidateSolution" where
  "CandidateSolution_init s c =
     \<lparr> string = s, priv_content = c, age = 0, b_descs = (0, 0), c_fitness = 0,
       fitness = [], is_feasible = True, ncv = 0, representation = [], n_blocks = 0,
       content_size = (0, 0, 0) \<rparr>"

text \<open>\<^verbatim>\<open>__eq__\<close>: two solutions are equal when their strings are.\<close>

definition cs_eq :: "CandidateSolution \<Rightarrow> CandidateSolution \<Rightarrow> bool" where
  "cs_eq a b = (string a = string b)"

text \<open>\<^verbatim>\<open>cs in pop\<close> for a list \<open>pop\<close> goes through \<^verbatim>\<open>__eq__\<close>.\<close>

definition cs_in :: "CandidateSolution \<Rightarrow> CandidateSolution list \<Rightarrow> bool" where
  "cs_in c pop = (string c \<in> set (map string pop))"

text \<open>
  \<^verbatim>\<open>set_content\<close> mutates the solution in place, so the model returns the solution as
  it is after the call together with the outcome: \<open>Inl\<close> the exception raised, \<open>Inr ()\<close>
  a normal return.
\<close>

definition set_content :: "CandidateSolution \<Rightarrow> Structure \<Rightarrow> (error + unit) \<times> CandidateSolution" where
  "set_content cs c =
     (case priv_content cs of
        Some _ \<Rightarrow> (Inl (PyException ''Structure already exists for this CandidateSolution.''), cs)
      | None \<Rightarrow> (Inr (), cs\<lparr>priv_content := Some c, n_blocks := length (priv_blocks c)\<rparr>))"

text \<open>
  A caller that calls \<^verbatim>\<open>set_content\<close> with one structure after the other on the same
  solution and goes on after an exception: the solution after all the calls.
\<close>

fun set_content_all :: "CandidateSolution \<Rightarrow> Structure list \<Rightarrow> CandidateSolution" where
  "set_content_all cs [] = cs"
| "set_content_all cs (c # rest) = set_content_all (snd (set_content cs c)) rest"

text \<open>The property \<^verbatim>\<open>content\<close>.\<close>

definition content :: "CandidateSolution \<Rightarrow> error + Structure" where
  "content cs = (case priv_content cs of Some s \<Rightarrow> Inr s | None \<Rightarrow> Inl NotImplementedError)"

section \<open>HullBuilder.intersect_planes (pcgsepy/hullbuilder.py)\<close>





section \<open>The MAP-Elites archive (pcgsepy/mapelites/map.py): data\<close>

text \<open>
  The constants imported from \<^verbatim>\<open>pcgsepy.config\<close>, which is not among the sources:
  they are parameters of the model.
\<close>

record config =
  EPSILON_F :: real
  CS_MAX_AGE :: int
  BIN_POP_SIZE :: nat
  ALIGNMENT_INTERVAL :: int
  MAX_X_SIZE :: real
  MAX_Y_SIZE :: real
  MAX_Z_SIZE :: real
  USE_TORCH :: bool

text \<open>
  A \<^verbatim>\<open>Fitness\<close> object (pcgsepy/evo/fitness.py, not among the sources): calling it
  evaluates its function on a solution; it carries a mutable weight and its bounds.
\<close>

record Fitness =
  fitness_f :: "CandidateSolution \<Rightarrow> real"
  fitness_weight :: real
  fitness_bounds :: "real \<times> real"

text \<open>
  A \<^verbatim>\<open>BehaviorCharacterization\<close> (not among the sources): callable on a solution,
  with optional \<^verbatim>\<open>bounds\<close> (the constructor of the archive tests them against
  \<^verbatim>\<open>None\<close>).
\<close>

record BehaviorCharacterization =
  bc_call :: "CandidateSolution \<Rightarrow> real"
  bc_bounds :: "(real \<times> real) option"

text \<open>
  The three estimator classes the archive dispatches on with \<^verbatim>\<open>isinstance\<close>. Each
  carries its \<^verbatim>\<open>is_trained\<close> flag and its \<^verbatim>\<open>predict\<close>: a point estimate for
  the Gaussian and the MLP estimator, an array for the quantile estimator.
\<close>

datatype estimator =
    GaussianEstimator bool "real list \<Rightarrow> real"
  | MLPEstimator bool "real list \<Rightarrow> real"
  | QuantileEstimator bool "real list \<Rightarrow> real list"

fun is_trained :: "estimator \<Rightarrow> bool" where
  "is_trained (GaussianEstimator t _) = t"
| "is_trained (MLPEstimator t _) = t"
| "is_trained (QuantileEstimator t _) = t"

text \<open>
  Without torch the classes \<^verbatim>\<open>MLPEstimator\<close> and \<^verbatim>\<open>QuantileEstimator\<close> of map.py
  are stubs whose constructor raises, so that only a Gaussian estimator can exist; with
  torch all three can. This is the estimator being one the configuration supports.
\<close>

fun estimator_supported :: "config \<Rightarrow> estimator \<Rightarrow> bool" where
  "estimator_supported cfg (GaussianEstimator _ _) = True"
| "estimator_supported cfg (MLPEstimator _ _) = USE_TORCH cfg"
| "estimator_supported cfg (QuantileEstimator _ _) = USE_TORCH cfg"

record HullBuilder =
  erosion_type :: string
  apply_erosion :: bool
  apply_smoothing :: bool

text \<open>
  Modelled from the spec: the class \<^verbatim>\<open>MAPBin\<close> (pcgsepy/mapelites/bin.py) is not
  among the sources. These are the attributes the archive reads and writes; a bin owns
  two independent lists, the feasible and the infeasible population, and a per-population
  new-elite marker (the dictionary \<^verbatim>\<open>new_elite\<close> with the keys 'feasible' and
  'infeasible', here a pair in that order).
\<close>

record MAPBin =
  bin_idx :: "nat \<times> nat"
  bin_size :: "real \<times> real"
  bin_initial_size :: "(real \<times> real) option"
  priv_feasible :: "CandidateSolution list"
  priv_infeasible :: "CandidateSolution list"
  new_elite :: "bool \<times> bool"

text \<open>
  Modelled from the spec: the constructor \<^verbatim>\<open>MAPBin(bin_idx, bin_size, bin_initial_size)\<close>
  makes a bin with both populations empty and no new elite.
\<close>

definition MAPBin_init :: "nat \<times> nat \<Rightarrow> real \<times> real \<Rightarrow> (real \<times> real) option \<Rightarrow> MAPBin" where
  "MAPBin_init idx sz isz =
     \<lparr> bin_idx = idx, bin_size = sz, bin_initial_size = isz,
       priv_feasible = [], priv_infeasible = [], new_elite = (False, False) \<rparr>"

text \<open>
  Modelled from the spec: emitters (pcgsepy/mapelites/emitters.py) and the bandit agent
  (pcgsepy/mapelites/bandit.py) are not among the sources. The archive reads an emitter's
  three \<^verbatim>\<open>requires_\<close> flags; whatever else an emitter or the agent remembers is opaque,
  here a list of numbers that only the collaborators interpret.
\<close>

record Emitter =
  emitter_name :: string
  requires_init :: bool
  requires_pre :: bool
  requires_post :: bool
  emitter_memory :: "real list"

record EpsilonGreedyAgent =
  agent_memory :: "real list"

text \<open>
  What \<^verbatim>\<open>Emitter.pick_bin\<close> returns: a list of bins, a pair of lists (the bins for the
  feasible and for the infeasible population), or a non-empty value of another form.
\<close>

datatype selection =
    FlatBins "MAPBin list"
  | PairedBins "MAPBin list" "MAPBin list"
  | Unrecognized

text \<open>The reward functions registered in \<^verbatim>\<open>agent_rewards\<close>.\<close>

datatype reward = CoverageReward | FitnessReward

text \<open>
  The attributes of a \<^verbatim>\<open>MAPElites\<close> object. The grid \<^verbatim>\<open>bins\<close> is a
  two-dimensional numpy array, here the list of its rows; \<^verbatim>\<open>np.ndenumerate\<close> and
  \<^verbatim>\<open>flatten\<close> visit it row by row. The buffer holds (input, target) pairs.
\<close>

record MAPElites =
  feasible_fitnesses :: "Fitness list"
  me_b_descs :: "BehaviorCharacterization \<times> BehaviorCharacterization"
  estimator :: "estimator option"
  emitter :: "Emitter option"
  agent :: "EpsilonGreedyAgent option"
  agent_rewards :: "reward list"
  buffer :: "(real list \<times> real) list"
  nsc :: real
  bin_qnt :: "nat \<times> nat"
  bin_sizes :: "real list \<times> real list"
  bins :: "MAPBin list list"
  hull_builder :: "HullBuilder option"
  max_f_fitness :: real
  infeas_fitness_idx :: int
  allow_res_increase :: bool
  allow_aging :: bool
  enforce_qnt :: bool
  n_new_solutions :: nat
  x_range :: "int \<times> int"
  y_range :: "int \<times> int"
  z_range :: "int \<times> int"

text \<open>
  The external collaborators: functions of this repository or of its libraries that are
  not among the sources (the grammar engine, the genetic operators, the hull builder's
  geometry, the proxy objectives, the buffer, the estimators' training, the methods of
  \<^verbatim>\<open>MAPBin\<close>). They are parameters; whatever they return, the modelled code does with
  it what the source does. Only \<^verbatim>\<open>create_new_pool\<close> and \<^verbatim>\<open>Buffer.get\<close> are given
  a failing outcome, the ones the source catches.
\<close>

record collaborators =
  box_filling_fitness :: "CandidateSolution \<Rightarrow> real"
  func_blocks_fitness :: "CandidateSolution \<Rightarrow> real"
  mame_fitness :: "CandidateSolution \<Rightarrow> real"
  mami_fitness :: "CandidateSolution \<Rightarrow> real"
  create_new_pool :: "CandidateSolution list \<Rightarrow> int \<Rightarrow> nat \<Rightarrow> bool \<Rightarrow> error + CandidateSolution list"
  add_ll_strings :: "CandidateSolution \<Rightarrow> CandidateSolution"
  set_structure :: "CandidateSolution \<Rightarrow> CandidateSolution"
  subdivide_solutions :: "CandidateSolution list \<Rightarrow> CandidateSolution list"
  apply_rules :: "nat \<Rightarrow> CandidateSolution list"
  add_external_hull :: "HullBuilder \<Rightarrow> Structure \<Rightarrow> Structure"
  set_color :: "Structure \<Rightarrow> Structure"
  rotate :: "Structure \<Rightarrow> Structure"
  prepare_dataset :: "CandidateSolution list \<Rightarrow> (real list \<times> real) list"
  buffer_insert :: "(real list \<times> real) list \<Rightarrow> real list \<Rightarrow> real \<Rightarrow> (real list \<times> real) list"
  buffer_get :: "(real list \<times> real) list \<Rightarrow> error + (real list list \<times> real list)"
  estimator_fit :: "estimator \<Rightarrow> real list list \<Rightarrow> real list \<Rightarrow> estimator"
  train_estimator :: "estimator \<Rightarrow> real list list \<Rightarrow> real list \<Rightarrow> estimator"
  insert_cs :: "MAPBin \<Rightarrow> CandidateSolution \<Rightarrow> MAPBin"
  remove_old :: "MAPBin \<Rightarrow> MAPBin"
  bin_age :: "MAPBin \<Rightarrow> int \<Rightarrow> MAPBin"
  subdividable :: "MAPBin \<Rightarrow> bool"
  pick_bin :: "Emitter \<Rightarrow> MAPBin list list \<Rightarrow> selection \<times> Emitter"
  pre_step :: "Emitter \<Rightarrow> MAPBin list list \<Rightarrow> (int \<times> int) list \<Rightarrow> (int \<times> int) list \<Rightarrow> Emitter"
  post_step :: "Emitter \<Rightarrow> MAPBin list list \<Rightarrow> Emitter"
  get_emitter_by_str :: "string \<Rightarrow> Emitter"
  choose_bandit :: "EpsilonGreedyAgent \<Rightarrow> string \<times> EpsilonGreedyAgent"
  reward_bandit :: "EpsilonGreedyAgent \<Rightarrow> string \<Rightarrow> real \<Rightarrow> EpsilonGreedyAgent"

text \<open>
  What the code does to the world outside the archive: the messages it logs at level
  \<^verbatim>\<open>error\<close>, and the calls it makes to \<^verbatim>\<open>create_new_pool\<close> with their arguments
  (population, generation, n_individuals, minimize).
\<close>

record world =
  error_log :: "string list"
  pool_calls :: "(CandidateSolution list \<times> int \<times> nat \<times> bool) list"

text \<open>A comprehension or a \<^verbatim>\<open>Parallel\<close> map whose body can raise: the first exception ends it.\<close>

fun map_result :: "('a \<Rightarrow> error + 'b) \<Rightarrow> 'a list \<Rightarrow> error + 'b list" where
  "map_result g [] = Inr []"
| "map_result g (a # as) =
     (case g a of
        Inl e \<Rightarrow> Inl e
      | Inr b \<Rightarrow> (case map_result g as of Inl e \<Rightarrow> Inl e | Inr bs \<Rightarrow> Inr (b # bs)))"

section \<open>Fitness assignment\<close>

text \<open>
  \<^verbatim>\<open>MAPElites.compute_fitness\<close>. It writes \<^verbatim>\<open>cs.fitness\<close> and
  \<^verbatim>\<open>cs.representation\<close>, so the model returns the value together with the solution.
\<close>

definition compute_fitness ::
  "config \<Rightarrow> collaborators \<Rightarrow> MAPElites \<Rightarrow> CandidateSolution \<Rightarrow> error + (real \<times> CandidateSolution)" where
  "compute_fitness cfg env me cs =
     (if is_feasible cs then
        (let cs1 = cs\<lparr>fitness := map (\<lambda>g. fitness_f g cs) (feasible_fitnesses me)\<rparr>;
             cs2 = cs1\<lparr>representation := fitness cs1\<rparr>
         in case content cs2 of
              Inl e \<Rightarrow> Inl e
            | Inr s \<Rightarrow>
               (case priv_max_dims s of (dx, dy, dz) \<Rightarrow>
                 (case py_truediv (of_int dx) (MAX_X_SIZE cfg) of Inl e \<Rightarrow> Inl e | Inr rx \<Rightarrow>
                 (case py_truediv (of_int dy) (MAX_Y_SIZE cfg) of Inl e \<Rightarrow> Inl e | Inr ry \<Rightarrow>
                 (case py_truediv (of_int dz) (MAX_Z_SIZE cfg) of Inl e \<Rightarrow> Inl e | Inr rz \<Rightarrow>
                    Inr (sum_list (map (\<lambda>i. fitness_weight (feasible_fitnesses me ! i) * (fitness cs2 ! i))
                                       [0..<length (fitness cs2)]),
                         cs2\<lparr>representation := representation cs2 @ [rx, ry, rz]\<rparr>))))))
      else
        (let cs1 = cs\<lparr>representation :=
                      map (\<lambda>g. g cs) [box_filling_fitness env, func_blocks_fitness env,
                                       mame_fitness env, mami_fitness env]\<rparr>
         in case estimator me of
              Some (GaussianEstimator trained predict) \<Rightarrow>
                Inr (if trained then predict (representation cs1) else EPSILON_F cfg, cs1)
            | Some (MLPEstimator trained predict) \<Rightarrow>
                (if USE_TORCH cfg
                 then Inr (if trained then predict (representation cs1) else EPSILON_F cfg, cs1)
                 else Inl NotImplementedError)
            | Some (QuantileEstimator trained predict) \<Rightarrow>
                (if USE_TORCH cfg
                 then (let cs2 = (if trained then cs1\<lparr>fitness := predict (representation cs1)\<rparr>
                                  else cs1\<lparr>fitness := [EPSILON_F cfg, EPSILON_F cfg, EPSILON_F cfg]\<rparr>)
                       in (case py_index (fitness cs2) (infeas_fitness_idx me) of
                             Inl e \<Rightarrow> Inl e
                           | Inr v \<Rightarrow> Inr (v, cs2)))
                 else Inl NotImplementedError)
            | None \<Rightarrow> Inr (of_int (ncv cs1), cs1)))"

text \<open>
  The four proxy objectives that \<^verbatim>\<open>compute_fitness\<close> evaluates into the
  representation of an infeasible solution, under a name of their own.
\<close>

definition infeasible_representation :: "collaborators \<Rightarrow> CandidateSolution \<Rightarrow> real list" where
  "infeasible_representation env cs =
     [box_filling_fitness env cs, func_blocks_fitness env cs, mame_fitness env cs, mami_fitness env cs]"

text \<open>\<^verbatim>\<open>MAPElites._set_behavior_descriptors\<close>.\<close>

definition set_behavior_descriptors :: "MAPElites \<Rightarrow> CandidateSolution \<Rightarrow> CandidateSolution" where
  "set_behavior_descriptors me cs =
     cs\<lparr>b_descs := (bc_call (fst (me_b_descs me)) cs, bc_call (snd (me_b_descs me)) cs)\<rparr>"

text \<open>\<^verbatim>\<open>MAPElites._assign_fitness\<close>.\<close>

definition assign_fitness ::
  "config \<Rightarrow> collaborators \<Rightarrow> MAPElites \<Rightarrow> CandidateSolution \<Rightarrow> error + CandidateSolution" where
  "assign_fitness cfg env me cs =
     (case compute_fitness cfg env me cs of
        Inl e \<Rightarrow> Inl e
      | Inr (v, cs1) \<Rightarrow>
          (let cs2 = cs1\<lparr>c_fitness := v + (if is_feasible cs1 then nsc me - of_int (ncv cs1) else 0)\<rparr>;
               cs3 = set_behavior_descriptors me cs2
           in Inr (cs3\<lparr>age := CS_MAX_AGE cfg\<rparr>)))"

text \<open>
  \<^verbatim>\<open>MAPElites._prepare_cs_content\<close>. The structure is mutated in place by the hull
  builder, \<^verbatim>\<open>set_color\<close> and \<^verbatim>\<open>rotate\<close>; each read of \<^verbatim>\<open>cs.content\<close> raises
  when no structure is set.
\<close>

definition prepare_cs_content ::
  "collaborators \<Rightarrow> MAPElites \<Rightarrow> bool \<Rightarrow> CandidateSolution \<Rightarrow> error + CandidateSolution" where
  "prepare_cs_content env me add_hull cs =
     (case content cs of
        Inl e \<Rightarrow> Inl e
      | Inr s \<Rightarrow>
          (let s1 = (case hull_builder me of
                       Some hb \<Rightarrow> if add_hull then add_external_hull env hb s else s
                     | None \<Rightarrow> s);
               s2 = rotate env (set_color env s1)
           in Inr (cs\<lparr>priv_content := Some s2, content_size := priv_max_dims s2\<rparr>)))"

text \<open>\<^verbatim>\<open>MAPElites._within_range\<close>.\<close>

definition within_range :: "MAPElites \<Rightarrow> CandidateSolution \<Rightarrow> bool" where
  "within_range me cs =
     (case (case priv_content cs of Some s \<Rightarrow> priv_max_dims s | None \<Rightarrow> content_size cs) of
        (d0, d1, d2) \<Rightarrow>
          fst (x_range me) \<le> d0 \<and> d0 \<le> snd (x_range me) \<and>
          fst (y_range me) \<le> d1 \<and> d1 \<le> snd (y_range me) \<and>
          fst (z_range me) \<le> d2 \<and> d2 \<le> snd (z_range me))"

section \<open>The FI-2Pop step of the archive\<close>

text \<open>
  The direction handed to \<^verbatim>\<open>create_new_pool\<close>:
  \<^verbatim>\<open>False if pop[0].is_feasible else False if self.estimator is not None else True\<close>.
  It is evaluated only for a non-empty population.
\<close>

definition minimize_flag :: "MAPElites \<Rightarrow> CandidateSolution list \<Rightarrow> bool" where
  "minimize_flag me pop =
     (if is_feasible (pop ! 0) then False else if estimator me \<noteq> None then False else True)"

text \<open>
  The body of the \<^verbatim>\<open>try\<close> block of \<^verbatim>\<open>_step\<close> for one population: the new pool
  gets its low-level strings and structures, is checked by \<^verbatim>\<open>subdivide_solutions\<close>,
  prepared and given its fitness.
\<close>

definition generate_offspring ::
  "config \<Rightarrow> collaborators \<Rightarrow> MAPElites \<Rightarrow> int \<Rightarrow> CandidateSolution list \<Rightarrow> error + CandidateSolution list" where
  "generate_offspring cfg env me gen pop =
     (case create_new_pool env pop gen (BIN_POP_SIZE cfg) (minimize_flag me pop) of
        Inl e \<Rightarrow> Inl e
      | Inr new_pool \<Rightarrow>
          (case map_result (prepare_cs_content env me True)
                  (subdivide_solutions env (map (set_structure env) (map (add_ll_strings env) new_pool))) of
             Inl e \<Rightarrow> Inl e
           | Inr prepared \<Rightarrow> map_result (assign_fitness cfg env me) prepared))"

text \<open>
  The loop of \<^verbatim>\<open>_step\<close> over the populations. An \<^verbatim>\<open>EvoException\<close> from the
  \<^verbatim>\<open>try\<close> block is logged and the loop goes on; any other exception leaves the step.
\<close>

fun step_populations ::
  "config \<Rightarrow> collaborators \<Rightarrow> MAPElites \<Rightarrow> int \<Rightarrow> CandidateSolution list list \<Rightarrow>
   CandidateSolution list \<Rightarrow> world \<Rightarrow> error + (CandidateSolution list \<times> world)" where
  "step_populations cfg env me gen [] generated w = Inr (generated, w)"
| "step_populations cfg env me gen (pop # pops) generated w =
     (if length pop > 0 then
        (let w1 = w\<lparr>pool_calls := pool_calls w @ [(pop, gen, BIN_POP_SIZE cfg, minimize_flag me pop)]\<rparr>
         in (case generate_offspring cfg env me gen pop of
               Inr new_pool \<Rightarrow> step_populations cfg env me gen pops (generated @ new_pool) w1
             | Inl (EvoException msg) \<Rightarrow>
                 step_populations cfg env me gen pops generated
                   (w1\<lparr>error_log := error_log w1 @ [''[pcgsepy.mapelites.map._step] '' @ msg]\<rparr>)
             | Inl e \<Rightarrow> Inl e))
      else step_populations cfg env me gen pops generated w)"

text \<open>
  The world after \<^verbatim>\<open>_step\<close> called \<^verbatim>\<open>create_new_pool\<close> for \<open>pop\<close> and logged the
  \<^verbatim>\<open>EvoException\<close> with the message \<open>msg\<close> that came back.
\<close>

definition skipped :: "config \<Rightarrow> MAPElites \<Rightarrow> int \<Rightarrow> CandidateSolution list \<Rightarrow> string \<Rightarrow> world \<Rightarrow> world" where
  "skipped cfg me gen pop msg w =
     w\<lparr>pool_calls := pool_calls w @ [(pop, gen, BIN_POP_SIZE cfg, minimize_flag me pop)],
       error_log := error_log w @ [''[pcgsepy.mapelites.map._step] '' @ msg]\<rparr>"

text \<open>\<^verbatim>\<open>for x, y in zip(xs, ys): self.buffer.insert(x=x, y=y / self.max_f_fitness)\<close>.\<close>

fun buffer_insert_all ::
  "collaborators \<Rightarrow> real \<Rightarrow> (real list \<times> real) list \<Rightarrow> (real list \<times> real) list \<Rightarrow>
   error + (real list \<times> real) list" where
  "buffer_insert_all env maxf buf [] = Inr buf"
| "buffer_insert_all env maxf buf ((xi, yi) # ds) =
     (case py_truediv yi maxf of
        Inl e \<Rightarrow> Inl e
      | Inr v \<Rightarrow> buffer_insert_all env maxf (buffer_insert env buf xi v) ds)"

text \<open>
  The training \<^verbatim>\<open>try\<close> block. An empty buffer is skipped. Without torch the names
  \<^verbatim>\<open>MLPEstimator\<close>, \<^verbatim>\<open>QuantileEstimator\<close> and \<^verbatim>\<open>train_estimator\<close> are the
  stubs of map.py; the stub \<^verbatim>\<open>train_estimator\<close> has a fourth parameter that the
  call does not pass.
\<close>

definition train_on_buffer ::
  "config \<Rightarrow> collaborators \<Rightarrow> estimator \<Rightarrow> (real list \<times> real) list \<Rightarrow> error + estimator" where
  "train_on_buffer cfg env est buf =
     (case buffer_get env buf of
        Inl EmptyBufferException \<Rightarrow> Inr est
      | Inl e \<Rightarrow> Inl e
      | Inr (xs, ys) \<Rightarrow>
          (case est of
             GaussianEstimator _ _ \<Rightarrow> Inr (estimator_fit env est xs ys)
           | MLPEstimator _ _ \<Rightarrow>
               (if USE_TORCH cfg then Inr (train_estimator env est xs ys) else Inl NotImplementedError)
           | QuantileEstimator _ _ \<Rightarrow>
               (if USE_TORCH cfg then Inr (train_estimator env est xs ys) else Inl TypeError)))"

text \<open>Realignment of one archived infeasible solution.\<close>

definition realign_cs ::
  "config \<Rightarrow> collaborators \<Rightarrow> MAPElites \<Rightarrow> CandidateSolution \<Rightarrow> error + CandidateSolution" where
  "realign_cs cfg env me cs =
     (if age cs > ALIGNMENT_INTERVAL cfg then
        (let cs1 = (if priv_content cs = None then set_structure env cs else cs)
         in (case prepare_cs_content env me True cs1 of
               Inl e \<Rightarrow> Inl e
             | Inr cs2 \<Rightarrow>
                 (case compute_fitness cfg env me cs2 of
                    Inl e \<Rightarrow> Inl e
                  | Inr (v, cs3) \<Rightarrow> Inr (cs3\<lparr>c_fitness := v\<rparr>))))
      else Inr cs)"

definition realign_bin ::
  "config \<Rightarrow> collaborators \<Rightarrow> MAPElites \<Rightarrow> MAPBin \<Rightarrow> error + MAPBin" where
  "realign_bin cfg env me b =
     (case map_result (realign_cs cfg env me) (priv_infeasible b) of
        Inl e \<Rightarrow> Inl e
      | Inr pop \<Rightarrow> Inr (b\<lparr>priv_infeasible := pop\<rparr>))"

text \<open>The part of \<^verbatim>\<open>_step\<close> under \<^verbatim>\<open>if self.estimator is not None\<close>.\<close>

definition step_estimator ::
  "config \<Rightarrow> collaborators \<Rightarrow> MAPElites \<Rightarrow> int \<Rightarrow> CandidateSolution list \<Rightarrow> error + MAPElites" where
  "step_estimator cfg env me gen generated =
     (case estimator me of
        None \<Rightarrow> Inr me
      | Some est \<Rightarrow>
          (case buffer_insert_all env (max_f_fitness me) (buffer me)
                  (prepare_dataset env (filter is_feasible generated)) of
             Inl e \<Rightarrow> Inl e
           | Inr buf \<Rightarrow>
               (case train_on_buffer cfg env est buf of
                  Inl e \<Rightarrow> Inl e
                | Inr est1 \<Rightarrow>
                    (let me1 = me\<lparr>buffer := buf, estimator := Some est1\<rparr>
                     in if is_trained est1 then
                          (if ALIGNMENT_INTERVAL cfg = 0 then Inl ZeroDivisionError
                           else if gen mod ALIGNMENT_INTERVAL cfg = 0 then
                             (case map_result (map_result (realign_bin cfg env me1)) (bins me1) of
                                Inl e \<Rightarrow> Inl e
                              | Inr bs \<Rightarrow> Inr (me1\<lparr>bins := bs\<rparr>))
                           else Inr me1)
                        else Inr me1))))"

text \<open>\<^verbatim>\<open>MAPElites._step\<close>: the generated solutions, the archive and the world after it.\<close>

definition step ::
  "config \<Rightarrow> collaborators \<Rightarrow> MAPElites \<Rightarrow> CandidateSolution list list \<Rightarrow> int \<Rightarrow> world \<Rightarrow>
   error + (CandidateSolution list \<times> MAPElites \<times> world)" where
  "step cfg env me populations gen w =
     (case step_populations cfg env me gen populations [] w of
        Inl e \<Rightarrow> Inl e
      | Inr (generated0, w1) \<Rightarrow>
          (let generated = filter (within_range me) generated0
           in (case step_estimator cfg env me gen generated of
                 Inl e \<Rightarrow> Inl e
               | Inr me1 \<Rightarrow>
                   Inr (generated, me1\<lparr>n_new_solutions := n_new_solutions me1 + length generated\<rparr>, w1))))"

section \<open>The grid: insertion, aging, subdivision\<close>

text \<open>\<^verbatim>\<open>np.cumsum\<close>: the running sums of a list.\<close>

fun cumsum_from :: "real \<Rightarrow> real list \<Rightarrow> real list" where
  "cumsum_from acc [] = []"
| "cumsum_from acc (a # as) = (acc + a) # cumsum_from (acc + a) as"

text \<open>
  \<^verbatim>\<open>np.cumsum([0] + sizes[:-1]) + lo\<close>: the lower boundary of every bin of one axis.
\<close>

definition bin_lower_bounds :: "real list \<Rightarrow> real \<Rightarrow> real list" where
  "bin_lower_bounds sizes lo = map (\<lambda>c. c + lo) (cumsum_from 0 (0 # butlast sizes))"

text \<open>
  \<^verbatim>\<open>np.digitize(x=[v], bins=bs, right=False)[0]\<close>. For non-decreasing \<open>bs\<close> (constant
  ones included) it is the number of boundaries at or below \<open>v\<close>; for non-increasing
  \<open>bs\<close> numpy searches the reversed boundaries and inverts the result; other \<open>bs\<close>
  raise \<^verbatim>\<open>ValueError\<close>.
\<close>

definition digitize :: "real \<Rightarrow> real list \<Rightarrow> error + nat" where
  "digitize v bs =
     (if sorted bs then Inr (length (filter (\<lambda>b. b \<le> v) bs))
      else if sorted (rev bs) then Inr (length bs - length (filter (\<lambda>b. b \<le> v) bs))
      else Inl ValueError)"

text \<open>
  An index into one axis of a numpy array: a negative one counts from the end, one out
  of range raises.
\<close>

definition np_index :: "nat \<Rightarrow> int \<Rightarrow> error + nat" where
  "np_index n i =
     (if 0 \<le> i \<and> i < int n then Inr (nat i)
      else if i < 0 \<and> - int n \<le> i then Inr (nat (int n + i))
      else Inl IndexError)"

text \<open>\<^verbatim>\<open>self.bins[i, j].insert_cs(cs)\<close>.\<close>

definition grid_insert ::
  "collaborators \<Rightarrow> MAPBin list list \<Rightarrow> int \<Rightarrow> int \<Rightarrow> CandidateSolution \<Rightarrow> error + MAPBin list list" where
  "grid_insert env g i j cs =
     (case np_index (length g) i of
        Inl e \<Rightarrow> Inl e
      | Inr r \<Rightarrow>
          (case np_index (length (g ! r)) j of
             Inl e \<Rightarrow> Inl e
           | Inr c \<Rightarrow> Inr (g[r := (g ! r)[c := insert_cs env (g ! r ! c) cs]])))"

text \<open>The loop of \<^verbatim>\<open>_update_bins\<close> over the solutions.\<close>

fun insert_all ::
  "collaborators \<Rightarrow> real list \<Rightarrow> real list \<Rightarrow> MAPBin list list \<Rightarrow> CandidateSolution list \<Rightarrow>
   error + MAPBin list list" where
  "insert_all env bc0 bc1 g [] = Inr g"
| "insert_all env bc0 bc1 g (cs # lcs) =
     (case digitize (fst (b_descs cs)) bc0 of
        Inl e \<Rightarrow> Inl e
      | Inr d0 \<Rightarrow>
          (case digitize (snd (b_descs cs)) bc1 of
             Inl e \<Rightarrow> Inl e
           | Inr d1 \<Rightarrow>
               (case grid_insert env g (int d0 - 1) (int d1 - 1) cs of
                  Inl e \<Rightarrow> Inl e
                | Inr g1 \<Rightarrow> insert_all env bc0 bc1 g1 lcs)))"

text \<open>
  \<^verbatim>\<open>MAPElites._update_bins\<close>. Reading \<^verbatim>\<open>bounds[0]\<close> of a descriptor without
  bounds raises \<^verbatim>\<open>TypeError\<close>.
\<close>

definition update_bins :: "collaborators \<Rightarrow> MAPElites \<Rightarrow> CandidateSolution list \<Rightarrow> error + MAPElites" where
  "update_bins env me lcs =
     (case bc_bounds (fst (me_b_descs me)) of
        None \<Rightarrow> Inl TypeError
      | Some (lo0, hi0) \<Rightarrow>
          (case bc_bounds (snd (me_b_descs me)) of
             None \<Rightarrow> Inl TypeError
           | Some (lo1, hi1) \<Rightarrow>
               (case insert_all env (bin_lower_bounds (fst (bin_sizes me)) lo0)
                                    (bin_lower_bounds (snd (bin_sizes me)) lo1) (bins me) lcs of
                  Inl e \<Rightarrow> Inl e
                | Inr g \<Rightarrow>
                    Inr (me\<lparr>bins := (if allow_aging me then map (map (remove_old env)) g else g)\<rparr>))))"

text \<open>\<^verbatim>\<open>MAPElites._age_bins\<close>.\<close>

definition age_bins :: "collaborators \<Rightarrow> MAPElites \<Rightarrow> int \<Rightarrow> MAPElites" where
  "age_bins env me diff =
     (if allow_aging me then me\<lparr>bins := map (map (\<lambda>b. bin_age env b diff)) (bins me)\<rparr> else me)"

text \<open>\<^verbatim>\<open>MAPElites._valid_bins\<close>.\<close>

definition valid_bins :: "MAPElites \<Rightarrow> MAPBin list" where
  "valid_bins me = filter (\<lambda>cbin. length (priv_feasible cbin) > 0) (concat (bins me))"

text \<open>\<^verbatim>\<open>list.insert(k, v)\<close> for a non-negative \<open>k\<close>.\<close>

definition py_insert :: "'a list \<Rightarrow> nat \<Rightarrow> 'a \<Rightarrow> 'a list" where
  "py_insert xs k v = take k xs @ [v] @ drop k xs"

text \<open>
  Every solution archived in the grid, bin after bin, the feasible before the infeasible
  ones: \<^verbatim>\<open>all_cs\<close> of \<^verbatim>\<open>subdivide_range\<close>.
\<close>

definition all_solutions :: "MAPBin list list \<Rightarrow> CandidateSolution list" where
  "all_solutions g = concat (map (\<lambda>cbin. priv_feasible cbin @ priv_infeasible cbin) (concat g))"

text \<open>
  One bin of the grid that \<^verbatim>\<open>subdivide_range\<close> builds: a fresh bin at \<open>(m, n)\<close> with
  the new sizes, whose new-elite marker is copied from the old bin at \<open>(x, y)\<close>.
\<close>

definition new_bin ::
  "MAPBin list list \<Rightarrow> real list \<Rightarrow> real list \<Rightarrow> nat \<Rightarrow> nat \<Rightarrow> real \<Rightarrow> real \<Rightarrow> nat \<Rightarrow> nat \<Rightarrow>
   error + MAPBin" where
  "new_bin old s0 s1 i j v_i v_j m n =
     (if m < length s0 \<and> n < length s1 then
        (let xy = (if \<not> (m = i + 1 \<and> n = j + 1)
                   then (if m \<le> i then m else m - 1, if n \<le> j then n else n - 1)
                   else (i, j))
         in if fst xy < length old \<and> snd xy < length (old ! fst xy)
            then Inr ((MAPBin_init (m, n) (s0 ! m, s1 ! n) (Some (v_i, v_j)))
                        \<lparr>new_elite := new_elite (old ! fst xy ! snd xy)\<rparr>)
            else Inl IndexError)
      else Inl IndexError)"

text \<open>
  \<^verbatim>\<open>MAPElites.subdivide_range\<close>. Bin indices are the non-negative positions that
  \<^verbatim>\<open>np.ndenumerate\<close> gives. The preference matrix of a \<^verbatim>\<open>HumanPrefMatrixEmitter\<close>
  belongs to the emitter, which is not part of the archive's modelled state.
\<close>

definition subdivide_range :: "collaborators \<Rightarrow> MAPElites \<Rightarrow> nat \<times> nat \<Rightarrow> error + MAPElites" where
  "subdivide_range env me idx =
     (case idx of (i, j) \<Rightarrow>
        (let all_cs = all_solutions (bins me);
             s0 = fst (bin_sizes me);
             s1 = snd (bin_sizes me)
         in if i < length s0 \<and> j < length s1 then
              (let v_i = s0 ! i;
                   v_j = s1 ! j;
                   s0' = py_insert (s0[i := v_i / 2]) (i + 1) (v_i / 2);
                   s1' = py_insert (s1[j := v_j / 2]) (j + 1) (v_j / 2);
                   qnt = (fst (bin_qnt me) + 1, snd (bin_qnt me) + 1)
               in (case map_result (\<lambda>m. map_result (new_bin (bins me) s0' s1' i j v_i v_j m) [0..<snd qnt])
                          [0..<fst qnt] of
                     Inl e \<Rightarrow> Inl e
                   | Inr new_bins \<Rightarrow>
                       update_bins env (me\<lparr>bin_sizes := (s0', s1'), bin_qnt := qnt, bins := new_bins\<rparr>) all_cs))
            else Inl IndexError))"

text \<open>\<^verbatim>\<open>for bin_idx in reversed(to_increase_res): self.subdivide_range(bin_idx=bin_idx)\<close>.\<close>

fun subdivide_all :: "collaborators \<Rightarrow> MAPElites \<Rightarrow> (nat \<times> nat) list \<Rightarrow> error + MAPElites" where
  "subdivide_all env me [] = Inr me"
| "subdivide_all env me (idx # idxs) =
     (case subdivide_range env me idx of
        Inl e \<Rightarrow> Inl e
      | Inr me1 \<Rightarrow> subdivide_all env me1 idxs)"

text \<open>\<^verbatim>\<open>MAPElites._check_res_trigger\<close>: the indices it subdivided and the archive after.\<close>

definition check_res_trigger ::
  "config \<Rightarrow> collaborators \<Rightarrow> MAPElites \<Rightarrow> error + ((nat \<times> nat) list \<times> MAPElites)" where
  "check_res_trigger cfg env me =
     (if allow_res_increase me then
        (let to_increase_res =
               map bin_idx
                 (filter (\<lambda>cbin. length (priv_feasible cbin) \<ge> BIN_POP_SIZE cfg \<and>
                                 length (priv_infeasible cbin) \<ge> BIN_POP_SIZE cfg \<and>
                                 subdividable env cbin)
                         (concat (bins me)))
         in (case subdivide_all env me (rev to_increase_res) of
               Inl e \<Rightarrow> Inl e
             | Inr me1 \<Rightarrow> Inr (to_increase_res, me1)))
      else Inr ([], me))"

section \<open>Random step\<close>

text \<open>
  \<^verbatim>\<open>random.choice(seq)\<close>: an empty sequence raises \<^verbatim>\<open>IndexError\<close>; otherwise the
  element at a random position, here the random number \<open>rnd\<close> reduced modulo the length.
\<close>

definition random_choice :: "nat \<Rightarrow> 'a list \<Rightarrow> error + 'a" where
  "random_choice rnd xs = (if xs = [] then Inl IndexError else Inr (xs ! (rnd mod length xs)))"

text \<open>\<^verbatim>\<open>MAPElites.rand_step\<close>.\<close>

definition rand_step ::
  "config \<Rightarrow> collaborators \<Rightarrow> MAPElites \<Rightarrow> int \<Rightarrow> nat \<Rightarrow> world \<Rightarrow> error + (MAPElites \<times> world)" where
  "rand_step cfg env me gen rnd w =
     (let me1 = age_bins env me (- 1)
      in (case random_choice rnd (valid_bins me1) of
            Inl e \<Rightarrow> Inl e
          | Inr rnd_bin \<Rightarrow>
              (case step cfg env me1 [priv_feasible rnd_bin, priv_infeasible rnd_bin] gen w of
                 Inl e \<Rightarrow> Inl e
               | Inr (generated, me2, w1) \<Rightarrow>
                   if generated \<noteq> [] then
                     (case update_bins env me2 generated of
                        Inl e \<Rightarrow> Inl e
                      | Inr me3 \<Rightarrow>
                          (case check_res_trigger cfg env me3 of
                             Inl e \<Rightarrow> Inl e
                           | Inr (expanded, me4) \<Rightarrow> Inr (me4, w1)))
                   else Inr (age_bins env me2 1, w1))))"

section \<open>Pseudo-nearest-neighbour search\<close>

text \<open>\<^verbatim>\<open>self.bins.shape\<close>: the numbers of rows and of columns of the grid.\<close>

definition shape :: "MAPBin list list \<Rightarrow> nat \<times> nat" where
  "shape g = (length g, (case g of [] \<Rightarrow> 0 | r # _ \<Rightarrow> length r))"

text \<open>The eight offsets, in the order of the source before \<^verbatim>\<open>np.random.shuffle\<close>.\<close>

definition neighbour_offsets :: "(int \<times> int) list" where
  "neighbour_offsets = [(- 1, - 1), (- 1, 0), (- 1, 1), (0, - 1), (0, 1), (1, - 1), (1, 0), (1, 1)]"

text \<open>
  The range test \<^verbatim>\<open>0 <= new_idx[0] < self.bins.shape[0] and 0 <= new_idx[1] < self.bins.shape[1]\<close>.
\<close>

definition in_shape :: "MAPBin list list \<Rightarrow> int \<times> int \<Rightarrow> bool" where
  "in_shape g idx =
     (0 \<le> fst idx \<and> fst idx < int (fst (shape g)) \<and> 0 \<le> snd idx \<and> snd idx < int (snd (shape g)))"

text \<open>The population of a bin that \<^verbatim>\<open>seek_nearest_valid\<close> collects.\<close>

definition pool_of :: "string \<Rightarrow> MAPBin \<Rightarrow> CandidateSolution list" where
  "pool_of pop cbin = (if pop = ''feasible'' then priv_feasible cbin else priv_infeasible cbin)"

text \<open>
  The inner loop of \<^verbatim>\<open>seek_nearest_valid\<close> over the offsets, for one inspected index:
  a non-empty pool is collected and ends the loop (\<^verbatim>\<open>break\<close>); an empty pool in
  range queues the neighbour unless \<open>idx\<close> is among \<open>past_idxs\<close>.
\<close>

fun scan_offsets ::
  "MAPBin list list \<Rightarrow> string \<Rightarrow> (int \<times> int) list \<Rightarrow> int \<times> int \<Rightarrow> (int \<times> int) list \<Rightarrow>
   CandidateSolution list \<times> (int \<times> int) list \<Rightarrow> CandidateSolution list \<times> (int \<times> int) list" where
  "scan_offsets g pop past_idxs idx [] acc = acc"
| "scan_offsets g pop past_idxs idx (offset # offsets) (new_pop, to_inspect) =
     (let new_idx = (fst idx + fst offset, snd idx + snd offset)
      in if in_shape g new_idx then
           (let pool = pool_of pop (g ! nat (fst new_idx) ! nat (snd new_idx))
            in if pool \<noteq> [] then (new_pop @ pool, to_inspect)
               else scan_offsets g pop past_idxs idx offsets
                      (new_pop, if idx \<notin> set past_idxs then to_inspect @ [new_idx] else to_inspect))
         else scan_offsets g pop past_idxs idx offsets (new_pop, to_inspect))"

text \<open>The loop over the inspected indices.\<close>

fun scan_inspecting ::
  "MAPBin list list \<Rightarrow> string \<Rightarrow> (int \<times> int) list \<Rightarrow> (int \<times> int) list \<Rightarrow> (int \<times> int) list \<Rightarrow>
   CandidateSolution list \<times> (int \<times> int) list \<Rightarrow> CandidateSolution list \<times> (int \<times> int) list" where
  "scan_inspecting g pop past_idxs offsets [] acc = acc"
| "scan_inspecting g pop past_idxs offsets (idx # inspecting) acc =
     scan_inspecting g pop past_idxs offsets inspecting (scan_offsets g pop past_idxs idx offsets acc)"

text \<open>
  The \<^verbatim>\<open>while new_pop == []\<close> loop. Every round starts with \<open>to_inspect\<close> and
  \<open>past_idxs\<close> empty; nothing is ever appended to \<open>past_idxs\<close>. The loop may run
  forever: \<open>None\<close> is "does not return".
\<close>

partial_function (option) seek_loop ::
  "MAPBin list list \<Rightarrow> string \<Rightarrow> (int \<times> int) list \<Rightarrow> (int \<times> int) list \<Rightarrow> CandidateSolution list \<Rightarrow>
   CandidateSolution list option" where
  "seek_loop g pop offsets inspecting new_pop =
     (if new_pop = [] then
        (case scan_inspecting g pop [] offsets inspecting (new_pop, []) of
           (new_pop1, to_inspect) \<Rightarrow>
             if to_inspect = [] then Some new_pop1
             else seek_loop g pop offsets to_inspect new_pop1)
      else Some new_pop)"

text \<open>
  \<^verbatim>\<open>MAPElites.seek_nearest_valid\<close>; \<open>offsets\<close> is the list of the eight offsets as
  \<^verbatim>\<open>np.random.shuffle\<close> left it.
\<close>

definition seek_nearest_valid ::
  "MAPElites \<Rightarrow> (int \<times> int) list \<Rightarrow> (int \<times> int) list \<Rightarrow> string \<Rightarrow> CandidateSolution list option" where
  "seek_nearest_valid me offsets bin_idxs pop = seek_loop (bins me) pop offsets bin_idxs []"

section \<open>Rewards of the bandit agent\<close>

text \<open>\<^verbatim>\<open>coverage_reward\<close>.\<close>

definition coverage_reward :: "config \<Rightarrow> MAPElites \<Rightarrow> error + real" where
  "coverage_reward cfg me =
     (let tot_coverage = fst (shape (bins me)) * snd (shape (bins me));
          inc_coverage = sum_list (map (\<lambda>map_bin. if list_ex (\<lambda>cs. age cs = CS_MAX_AGE cfg) (priv_feasible map_bin)
                                                    then 1 else (0::nat))
                                       (concat (bins me)))
      in py_truediv (real inc_coverage) (real tot_coverage))"

text \<open>The two nested loops of \<^verbatim>\<open>fitness_reward\<close>: the state is \<open>(prev_best, current_best)\<close>.\<close>

definition fitness_reward_cs :: "config \<Rightarrow> real \<times> real \<Rightarrow> CandidateSolution \<Rightarrow> real \<times> real" where
  "fitness_reward_cs cfg pc cs =
     (case pc of (prev_best, current_best) \<Rightarrow>
        if age cs = CS_MAX_AGE cfg \<and> c_fitness cs > prev_best then (prev_best, c_fitness cs)
        else if age cs \<noteq> CS_MAX_AGE cfg \<and> c_fitness cs > prev_best then (c_fitness cs, current_best)
        else (prev_best, current_best))"

definition fitness_reward_best :: "config \<Rightarrow> MAPElites \<Rightarrow> real \<times> real" where
  "fitness_reward_best cfg me =
     foldl (\<lambda>pc map_bin. foldl (fitness_reward_cs cfg) pc (priv_feasible map_bin)) (0, 0) (concat (bins me))"

text \<open>\<^verbatim>\<open>fitness_reward\<close>.\<close>

definition fitness_reward :: "config \<Rightarrow> MAPElites \<Rightarrow> error + real" where
  "fitness_reward cfg me =
     (case fitness_reward_best cfg me of
        (prev_best, current_best) \<Rightarrow> py_truediv (current_best - prev_best) prev_best)"

section \<open>Initial populations\<close>

text \<open>The attributes of a \<^verbatim>\<open>FI2PopSolver\<close> (pcgsepy/fi2pop/fi2pop.py) the model reads.\<close>

record FI2PopSolver =
  fi_feasible_fitnesses :: "Fitness list"
  fi_nsc :: real

text \<open>\<^verbatim>\<open>FI2PopSolver._compute_fitness\<close>.\<close>

definition fi_compute_fitness :: "FI2PopSolver \<Rightarrow> CandidateSolution \<Rightarrow> real list" where
  "fi_compute_fitness solver cs = map (\<lambda>g. fitness_f g cs) (fi_feasible_fitnesses solver)"

text \<open>
  The body of \<^verbatim>\<open>for cs in solutions\<close> in \<^verbatim>\<open>FI2PopSolver._generate_initial_populations\<close>;
  the state is \<open>(feasible_pop, infeasible_pop)\<close>.
\<close>

definition fi_add_solution ::
  "FI2PopSolver \<Rightarrow> int \<Rightarrow> CandidateSolution list \<times> CandidateSolution list \<Rightarrow> CandidateSolution \<Rightarrow>
   CandidateSolution list \<times> CandidateSolution list" where
  "fi_add_solution solver pops_size pops cs =
     (case pops of (feasible_pop, infeasible_pop) \<Rightarrow>
        if is_feasible cs \<and> int (length feasible_pop) < pops_size \<and> \<not> cs_in cs feasible_pop then
          (let cs1 = cs\<lparr>fitness := fi_compute_fitness solver cs\<rparr>;
               cs2 = cs1\<lparr>c_fitness := sum_list (fitness cs1) + (fi_nsc solver - of_int (ncv cs1))\<rparr>
           in (feasible_pop @ [cs2], infeasible_pop))
        else if \<not> is_feasible cs \<and> int (length infeasible_pop) < pops_size \<and> \<not> cs_in cs feasible_pop then
          (feasible_pop, infeasible_pop @ [cs\<lparr>c_fitness := of_int (ncv cs)\<rparr>])
        else (feasible_pop, infeasible_pop))"

text \<open>
  The loop \<^verbatim>\<open>for i in iterations\<close> with its \<^verbatim>\<open>break\<close>; \<open>apply_rules env i\<close> is what the
  grammar returns in round \<open>i\<close>.
\<close>

fun fi_retries ::
  "collaborators \<Rightarrow> FI2PopSolver \<Rightarrow> int \<Rightarrow> int \<Rightarrow> nat list \<Rightarrow>
   CandidateSolution list \<times> CandidateSolution list \<Rightarrow> CandidateSolution list \<times> CandidateSolution list" where
  "fi_retries env solver pops_size n_retries [] pops = pops"
| "fi_retries env solver pops_size n_retries (i # rest) pops =
     (let pops1 = foldl (fi_add_solution solver pops_size) pops (subdivide_solutions env (apply_rules env i))
      in if int i = n_retries \<or>
            (int (length (fst pops1)) = pops_size \<and> int (length (snd pops1)) = pops_size)
         then pops1
         else fi_retries env solver pops_size n_retries rest pops1)"

text \<open>\<^verbatim>\<open>FI2PopSolver._generate_initial_populations\<close>.\<close>

definition fi_generate_initial_populations ::
  "collaborators \<Rightarrow> FI2PopSolver \<Rightarrow> int \<Rightarrow> int \<Rightarrow> CandidateSolution list \<times> CandidateSolution list" where
  "fi_generate_initial_populations env solver pops_size n_retries =
     fi_retries env solver pops_size n_retries [0..<nat n_retries] ([], [])"

text \<open>
  The body of \<^verbatim>\<open>for cs in solutions\<close> in \<^verbatim>\<open>MAPElites.generate_initial_populations\<close>.
\<close>

definition me_add_solution ::
  "config \<Rightarrow> collaborators \<Rightarrow> MAPElites \<Rightarrow> int \<Rightarrow> CandidateSolution list \<times> CandidateSolution list \<Rightarrow>
   CandidateSolution \<Rightarrow> error + (CandidateSolution list \<times> CandidateSolution list)" where
  "me_add_solution cfg env me pop_size pops cs0 =
     (case pops of (feasible_pop, infeasible_pop) \<Rightarrow>
        (case prepare_cs_content env me False cs0 of
           Inl e \<Rightarrow> Inl e
         | Inr cs \<Rightarrow>
             if within_range me cs then
               (if is_feasible cs \<and> int (length feasible_pop) < pop_size \<and> \<not> cs_in cs feasible_pop then
                  (let cs1 = (case hull_builder me of
                                Some hb \<Rightarrow> cs\<lparr>priv_content := map_option (add_external_hull env hb) (priv_content cs)\<rparr>
                              | None \<Rightarrow> cs)
                   in (case assign_fitness cfg env me cs1 of
                         Inl e \<Rightarrow> Inl e
                       | Inr cs2 \<Rightarrow> Inr (feasible_pop @ [cs2], infeasible_pop)))
                else if \<not> is_feasible cs \<and> int (length infeasible_pop) < pop_size \<and> \<not> cs_in cs feasible_pop then
                  (case assign_fitness cfg env me cs of
                     Inl e \<Rightarrow> Inl e
                   | Inr cs2 \<Rightarrow> Inr (feasible_pop, infeasible_pop @ [cs2]))
                else Inr (feasible_pop, infeasible_pop))
             else Inr (feasible_pop, infeasible_pop)))"

fun me_add_solutions ::
  "config \<Rightarrow> collaborators \<Rightarrow> MAPElites \<Rightarrow> int \<Rightarrow> CandidateSolution list \<times> CandidateSolution list \<Rightarrow>
   CandidateSolution list \<Rightarrow> error + (CandidateSolution list \<times> CandidateSolution list)" where
  "me_add_solutions cfg env me pop_size pops [] = Inr pops"
| "me_add_solutions cfg env me pop_size pops (cs # rest) =
     (case me_add_solution cfg env me pop_size pops cs of
        Inl e \<Rightarrow> Inl e
      | Inr pops1 \<Rightarrow> me_add_solutions cfg env me pop_size pops1 rest)"

fun me_retries ::
  "config \<Rightarrow> collaborators \<Rightarrow> MAPElites \<Rightarrow> int \<Rightarrow> int \<Rightarrow> nat list \<Rightarrow>
   CandidateSolution list \<times> CandidateSolution list \<Rightarrow>
   error + (CandidateSolution list \<times> CandidateSolution list)" where
  "me_retries cfg env me pop_size n_retries [] pops = Inr pops"
| "me_retries cfg env me pop_size n_retries (i # rest) pops =
     (case me_add_solutions cfg env me pop_size pops (subdivide_solutions env (apply_rules env i)) of
        Inl e \<Rightarrow> Inl e
      | Inr pops1 \<Rightarrow>
          if int i = n_retries \<or>
             (int (length (fst pops1)) = pop_size \<and> int (length (snd pops1)) = pop_size)
          then Inr pops1
          else me_retries cfg env me pop_size n_retries rest pops1)"

text \<open>
  The two populations that \<^verbatim>\<open>MAPElites.generate_initial_populations\<close> builds before it
  hands them to \<^verbatim>\<open>_update_bins\<close>.
\<close>

definition me_initial_populations ::
  "config \<Rightarrow> collaborators \<Rightarrow> MAPElites \<Rightarrow> int \<Rightarrow> int \<Rightarrow>
   error + (CandidateSolution list \<times> CandidateSolution list)" where
  "me_initial_populations cfg env me pop_size n_retries =
     me_retries cfg env me pop_size n_retries [0..<nat n_retries] ([], [])"

section \<open>Interactive and emitter steps\<close>

text \<open>\<^verbatim>\<open>MAPElites._process_expanded_idxs\<close>.\<close>

definition expanded_neighbours :: "(int \<times> int) list \<Rightarrow> int \<times> int \<Rightarrow> (int \<times> int) list" where
  "expanded_neighbours expanded_idxs mn =
     concat (map (\<lambda>ij. (if fst mn = fst ij then [(fst mn + 1, snd mn)] else []) @
                        (if snd mn = snd ij then [(fst mn, snd mn + 1)] else []) @
                        (if fst mn = fst ij \<and> snd mn = snd ij then [(fst mn + 1, snd mn + 1)] else []))
                 expanded_idxs)"

definition process_expanded_idxs :: "(int \<times> int) list \<Rightarrow> (int \<times> int) list \<Rightarrow> (int \<times> int) list" where
  "process_expanded_idxs expanded_idxs selected_idxs =
     map (\<lambda>mn. (fst mn + int (length (filter (\<lambda>e. fst e < fst mn) expanded_idxs)),
                 snd mn + int (length (filter (\<lambda>e. snd e < snd mn) expanded_idxs))))
         (selected_idxs @ concat (map (expanded_neighbours expanded_idxs) selected_idxs))"

text \<open>\<^verbatim>\<open>self.bins[bin_idx]\<close> for a pair of integers.\<close>

definition grid_get :: "MAPBin list list \<Rightarrow> int \<times> int \<Rightarrow> error + MAPBin" where
  "grid_get g idx =
     (case np_index (fst (shape g)) (fst idx) of
        Inl e \<Rightarrow> Inl e
      | Inr r \<Rightarrow>
          (case np_index (snd (shape g)) (snd idx) of
             Inl e \<Rightarrow> Inl e
           | Inr c \<Rightarrow> Inr (g ! r ! c)))"

text \<open>
  The loop of \<^verbatim>\<open>interactive_step\<close> over the chosen bins; a bin is among the valid
  bins when its feasible population is not empty.
\<close>

fun collect_chosen ::
  "MAPElites \<Rightarrow> MAPBin list \<Rightarrow> CandidateSolution list \<times> CandidateSolution list \<Rightarrow>
   error + (CandidateSolution list \<times> CandidateSolution list)" where
  "collect_chosen me [] pops = Inr pops"
| "collect_chosen me (chosen_bin # rest) (f_pop, i_pop) =
     (if enforce_qnt me \<and> \<not> (length (priv_feasible chosen_bin) > 0) then Inl AssertionError
      else collect_chosen me rest (f_pop @ priv_feasible chosen_bin, i_pop @ priv_infeasible chosen_bin))"

text \<open>
  The common tail of the steps once the two populations are known: \<^verbatim>\<open>_step\<close>, then
  \<^verbatim>\<open>_update_bins\<close> and \<^verbatim>\<open>_check_res_trigger\<close> when something was generated
  (then the result carries the subdivided indices). \<open>undo_aging\<close> tells whether the
  step ages the bins back when nothing was.
\<close>

definition evolve ::
  "config \<Rightarrow> collaborators \<Rightarrow> MAPElites \<Rightarrow> bool \<Rightarrow> CandidateSolution list \<Rightarrow> CandidateSolution list \<Rightarrow>
   int \<Rightarrow> world \<Rightarrow> error + ((nat \<times> nat) list option \<times> MAPElites \<times> world)" where
  "evolve cfg env me undo_aging f_pop i_pop gen w =
     (case step cfg env me [f_pop, i_pop] gen w of
        Inl e \<Rightarrow> Inl e
      | Inr (generated, me2, w1) \<Rightarrow>
          if generated \<noteq> [] then
            (case update_bins env me2 generated of
               Inl e \<Rightarrow> Inl e
             | Inr me3 \<Rightarrow>
                 (case check_res_trigger cfg env me3 of
                    Inl e \<Rightarrow> Inl e
                  | Inr (expanded, me4) \<Rightarrow> Inr (Some expanded, me4, w1)))
          else Inr (None, if undo_aging then age_bins env me2 1 else me2, w1))"

text \<open>
  \<^verbatim>\<open>MAPElites.interactive_step\<close>, after the populations are settled. The emitter's
  \<^verbatim>\<open>pre_step\<close> changes the emitter only.
\<close>

definition interactive_finish ::
  "config \<Rightarrow> collaborators \<Rightarrow> MAPElites \<Rightarrow> (int \<times> int) list \<Rightarrow> CandidateSolution list \<Rightarrow>
   CandidateSolution list \<Rightarrow> int \<Rightarrow> world \<Rightarrow> error + (MAPElites \<times> world)" where
  "interactive_finish cfg env me bin_idxs f_pop i_pop gen w =
     (case evolve cfg env me True f_pop i_pop gen w of
        Inl e \<Rightarrow> Inl e
      | Inr (expanded, me1, w1) \<Rightarrow>
          (let expanded_idxs =
                 (case expanded of
                    Some ex \<Rightarrow> process_expanded_idxs (map (\<lambda>e. (int (fst e), int (snd e))) ex) bin_idxs
                  | None \<Rightarrow> [])
           in (case emitter me1 of
                 Some em \<Rightarrow>
                   if requires_pre em
                   then Inr (me1\<lparr>emitter := Some (pre_step env em (bins me1) bin_idxs expanded_idxs)\<rparr>, w1)
                   else Inr (me1, w1)
               | None \<Rightarrow> Inr (me1, w1))))"

text \<open>
  \<^verbatim>\<open>MAPElites.interactive_step\<close>. \<open>None\<close>: the search for neighbours does not return.
\<close>

definition interactive_step ::
  "config \<Rightarrow> collaborators \<Rightarrow> MAPElites \<Rightarrow> (int \<times> int) list \<Rightarrow> (int \<times> int) list \<Rightarrow> int \<Rightarrow> world \<Rightarrow>
   (error + (MAPElites \<times> world)) option" where
  "interactive_step cfg env me offsets bin_idxs gen w =
     (let me1 = age_bins env me (- 1)
      in (case map_result (grid_get (bins me1)) bin_idxs of
            Inl e \<Rightarrow> Some (Inl e)
          | Inr chosen_bins \<Rightarrow>
              (case collect_chosen me1 chosen_bins ([], []) of
                 Inl e \<Rightarrow> Some (Inl e)
               | Inr (f_pop, i_pop) \<Rightarrow>
                   if i_pop = [] then
                     (case seek_nearest_valid me1 offsets bin_idxs ''infeasible'' of
                        None \<Rightarrow> None
                      | Some i_pop1 \<Rightarrow> Some (interactive_finish cfg env me1 bin_idxs f_pop i_pop1 gen w))
                   else Some (interactive_finish cfg env me1 bin_idxs f_pop i_pop gen w))))"

text \<open>\<^verbatim>\<open>str.split(sep)\<close> for a separator of one character.\<close>

fun split_sep :: "char \<Rightarrow> string \<Rightarrow> string list" where
  "split_sep c [] = [[]]"
| "split_sep c (a # as) =
     (if a = c then [] # split_sep c as
      else (case split_sep c as of [] \<Rightarrow> [[a]] | p # ps \<Rightarrow> (a # p) # ps))"

text \<open>The merge rule of a bandit action as the index \<^verbatim>\<open>infeas_fitness_idx\<close>.\<close>

definition merge_method_idx :: "string \<Rightarrow> error + int" where
  "merge_method_idx method_str =
     (if method_str = ''max'' then Inr 0
      else if method_str = ''median'' then Inr 1
      else if method_str = ''min'' then Inr 2
      else Inl NotImplementedError)"

text \<open>\<^verbatim>\<open>cs.c_fitness = cs.fitness[self.infeas_fitness_idx]\<close> for the infeasible solutions of a bin.\<close>

definition remerge_bin :: "int \<Rightarrow> MAPBin \<Rightarrow> error + MAPBin" where
  "remerge_bin idx cbin =
     (case map_result (\<lambda>cs. case py_index (fitness cs) idx of
                              Inl e \<Rightarrow> Inl e
                            | Inr v \<Rightarrow> Inr (cs\<lparr>c_fitness := v\<rparr>)) (priv_infeasible cbin) of
        Inl e \<Rightarrow> Inl e
      | Inr pop \<Rightarrow> Inr (cbin\<lparr>priv_infeasible := pop\<rparr>))"

text \<open>
  The part of \<^verbatim>\<open>emitter_step\<close> under \<^verbatim>\<open>if self.agent is not None\<close>: the chosen
  action, if any, and the archive with the emitter and the merge rule of the action.
\<close>

definition apply_bandit ::
  "collaborators \<Rightarrow> MAPElites \<Rightarrow> error + (string option \<times> MAPElites)" where
  "apply_bandit env me =
     (case agent me of
        None \<Rightarrow> Inr (None, me)
      | Some ag \<Rightarrow>
          (case choose_bandit env ag of (action, ag1) \<Rightarrow>
             (case split_sep CHR '';'' action of
                [emitter_str, method_str] \<Rightarrow>
                  (case merge_method_idx method_str of
                     Inl e \<Rightarrow> Inl e
                   | Inr idx \<Rightarrow>
                       (case map_result (map_result (remerge_bin idx)) (bins me) of
                          Inl e \<Rightarrow> Inl e
                        | Inr bs \<Rightarrow>
                            Inr (Some action,
                                 me\<lparr>agent := Some ag1, emitter := Some (get_emitter_by_str env emitter_str),
                                    infeas_fitness_idx := idx, bins := bs\<rparr>)))
              | _ \<Rightarrow> Inl ValueError)))"

text \<open>One registered reward, and \<^verbatim>\<open>sum([f(self) for f in self.agent_rewards])\<close>.\<close>

definition eval_reward :: "config \<Rightarrow> MAPElites \<Rightarrow> reward \<Rightarrow> error + real" where
  "eval_reward cfg me r = (case r of CoverageReward \<Rightarrow> coverage_reward cfg me | FitnessReward \<Rightarrow> fitness_reward cfg me)"

definition total_reward :: "config \<Rightarrow> MAPElites \<Rightarrow> error + real" where
  "total_reward cfg me =
     (case map_result (eval_reward cfg me) (agent_rewards me) of
        Inl e \<Rightarrow> Inl e
      | Inr rs \<Rightarrow> Inr (sum_list rs))"

text \<open>The end of \<^verbatim>\<open>emitter_step\<close>: the emitter's \<^verbatim>\<open>post_step\<close> and the agent's reward.\<close>

definition emitter_finish ::
  "config \<Rightarrow> collaborators \<Rightarrow> string option \<Rightarrow> MAPElites \<Rightarrow> error + MAPElites" where
  "emitter_finish cfg env bandit me =
     (let me1 = (case emitter me of
                   Some em \<Rightarrow> if requires_post em then me\<lparr>emitter := Some (post_step env em (bins me))\<rparr> else me
                 | None \<Rightarrow> me)
      in (case agent me1 of
            None \<Rightarrow> Inr me1
          | Some ag \<Rightarrow>
              (case total_reward cfg me1 of
                 Inl e \<Rightarrow> Inl e
               | Inr r \<Rightarrow>
                   (case bandit of
                      Some action \<Rightarrow> Inr (me1\<lparr>agent := Some (reward_bandit env ag action r)\<rparr>)
                    | None \<Rightarrow> Inr me1))))"

text \<open>\<^verbatim>\<open>emitter_step\<close> from \<^verbatim>\<open>_step\<close> on.\<close>

definition emitter_evolve ::
  "config \<Rightarrow> collaborators \<Rightarrow> string option \<Rightarrow> MAPElites \<Rightarrow> CandidateSolution list \<Rightarrow>
   CandidateSolution list \<Rightarrow> int \<Rightarrow> world \<Rightarrow> error + (MAPElites \<times> world)" where
  "emitter_evolve cfg env bandit me fpop ipop gen w =
     (case evolve cfg env me False fpop ipop gen w of
        Inl e \<Rightarrow> Inl e
      | Inr (expanded, me1, w1) \<Rightarrow>
          (case emitter_finish cfg env bandit me1 of
             Inl e \<Rightarrow> Inl e
           | Inr me2 \<Rightarrow> Inr (me2, w1)))"

text \<open>
  \<^verbatim>\<open>MAPElites.emitter_step\<close>. \<open>None\<close>: the search for neighbours does not return.
\<close>

definition emitter_step ::
  "config \<Rightarrow> collaborators \<Rightarrow> MAPElites \<Rightarrow> (int \<times> int) list \<Rightarrow> int \<Rightarrow> world \<Rightarrow>
   (error + (MAPElites \<times> world)) option" where
  "emitter_step cfg env me offsets gen w =
     (if agent me = None \<and> emitter me = None then Some (Inl AssertionError)
      else
        (case apply_bandit env me of
           Inl e \<Rightarrow> Some (Inl e)
         | Inr (bandit, me1) \<Rightarrow>
             (case emitter me1 of
                None \<Rightarrow> Some (Inl AssertionError)
              | Some em \<Rightarrow>
                  (case pick_bin env em (bins me1) of (selected_bins, em1) \<Rightarrow>
                     (let me2 = me1\<lparr>emitter := Some em1\<rparr>
                      in (case selected_bins of
                            Unrecognized \<Rightarrow> Some (Inl NotImplementedError)
                          | FlatBins bs \<Rightarrow>
                              if bs = [] then Some (Inr (me2, w))
                              else
                                (let fpop = concat (map priv_feasible bs);
                                     ipop = concat (map priv_infeasible bs)
                                 in if ipop = [] then
                                      (case seek_nearest_valid me2 offsets
                                              (map (\<lambda>b. (int (fst (bin_idx b)), int (snd (bin_idx b)))) bs)
                                              ''infeasible'' of
                                         None \<Rightarrow> None
                                       | Some ipop1 \<Rightarrow> Some (emitter_evolve cfg env bandit me2 fpop ipop1 gen w))
                                    else Some (emitter_evolve cfg env bandit me2 fpop ipop gen w))
                          | PairedBins fbs ibs \<Rightarrow>
                              (let fpop = concat (map priv_feasible fbs);
                                   ipop = concat (map priv_infeasible ibs)
                               in if ipop = [] then
                                    (case seek_nearest_valid me2 offsets
                                            (map (\<lambda>b. (int (fst (bin_idx b)), int (snd (bin_idx b)))) ibs)
                                            ''infeasible'' of
                                       None \<Rightarrow> None
                                     | Some ipop1 \<Rightarrow> Some (emitter_evolve cfg env bandit me2 fpop ipop1 gen w))
                                  else Some (emitter_evolve cfg env bandit me2 fpop ipop gen w))))))))"

section \<open>Sequences of steps\<close>

text \<open>
  One step of the archive that returns: a random, an interactive or an emitter step, with
  whatever generation number, random numbers and chosen bins it gets.
\<close>

inductive archive_step :: "config \<Rightarrow> collaborators \<Rightarrow> MAPElites \<times> world \<Rightarrow> MAPElites \<times> world \<Rightarrow> bool"
  for cfg :: config and env :: collaborators where
    by_rand_step:
      "rand_step cfg env me gen rnd w = Inr mw \<Longrightarrow> archive_step cfg env (me, w) mw"
  | by_interactive_step:
      "interactive_step cfg env me offsets bin_idxs gen w = Some (Inr mw) \<Longrightarrow> archive_step cfg env (me, w) mw"
  | by_emitter_step:
      "emitter_step cfg env me offsets gen w = Some (Inr mw) \<Longrightarrow> archive_step cfg env (me, w) mw"

text \<open>
  The contract of \<^verbatim>\<open>MAPBin.insert_cs\<close> in the spec, on the identity keys: after the
  insertion the bin holds the strings it held and the string of the inserted solution.
\<close>

definition inserts_by_string :: "collaborators \<Rightarrow> bool" where
  "inserts_by_string env =
     (\<forall>cbin cs. set (map string (priv_feasible (insert_cs env cbin cs) @ priv_infeasible (insert_cs env cbin cs))) =
                insert (string cs) (set (map string (priv_feasible cbin @ priv_infeasible cbin))))"

text \<open>Two archives with the same bin sizes, bin numbers and grid shape.\<close>

definition same_shape :: "MAPElites \<Rightarrow> MAPElites \<Rightarrow> bool" where
  "same_shape me me' =
     (bin_qnt me' = bin_qnt me \<and> bin_sizes me' = bin_sizes me \<and>
      map length (bins me') = map length (bins me))"

text \<open>The number of bins of the grid, and the grid being the rectangle that \<open>bin_qnt\<close> and \<open>bin_sizes\<close> say.\<close>

definition total_bins :: "MAPElites \<Rightarrow> nat" where
  "total_bins me = length (concat (bins me))"

definition grid_ok :: "MAPElites \<Rightarrow> bool" where
  "grid_ok me =
     (length (bins me) = fst (bin_qnt me) \<and>
      list_all (\<lambda>row. length row = snd (bin_qnt me)) (bins me) \<and>
      length (fst (bin_sizes me)) = fst (bin_qnt me) \<and>
      length (snd (bin_sizes me)) = snd (bin_qnt me))"

section \<open>Example data\<close>

text \<open>A configuration, collaborators and solutions on which the theorems below are instantiated.\<close>

definition ex_cfg :: config where
  "ex_cfg = \<lparr> EPSILON_F = 1 / 1000, CS_MAX_AGE = 5, BIN_POP_SIZE = 1, ALIGNMENT_INTERVAL = 5,
              MAX_X_SIZE = 10, MAX_Y_SIZE = 10, MAX_Z_SIZE = 10, USE_TORCH = True \<rparr>"

definition ex_structure :: Structure where
  "ex_structure = \<lparr> priv_blocks = [((0, 0, 0), ''armor''), ((1, 0, 0), ''gyro'')], priv_max_dims = (2, 1, 1) \<rparr>"

definition ex_structure2 :: Structure where
  "ex_structure2 = \<lparr> priv_blocks = [((0, 0, 0), ''armor'')], priv_max_dims = (1, 1, 1) \<rparr>"

text \<open>A bin method \<^verbatim>\<open>insert_cs\<close> as the spec describes it: append to the population of the
  solution's feasibility class unless a solution with the same string is there.\<close>

definition ex_insert_cs :: "MAPBin \<Rightarrow> CandidateSolution \<Rightarrow> MAPBin" where
  "ex_insert_cs b cs =
     (if is_feasible cs
      then (if cs_in cs (priv_feasible b) then b else b\<lparr>priv_feasible := priv_feasible b @ [cs]\<rparr>)
      else (if cs_in cs (priv_infeasible b) then b else b\<lparr>priv_infeasible := priv_infeasible b @ [cs]\<rparr>))"

definition ex_bin_age :: "MAPBin \<Rightarrow> int \<Rightarrow> MAPBin" where
  "ex_bin_age b diff =
     b\<lparr>priv_feasible := map (\<lambda>cs. cs\<lparr>age := age cs + diff\<rparr>) (priv_feasible b),
       priv_infeasible := map (\<lambda>cs. cs\<lparr>age := age cs + diff\<rparr>) (priv_infeasible b)\<rparr>"

definition ex_emitter :: Emitter where
  "ex_emitter = \<lparr> emitter_name = ''random-emitter'', requires_init = False, requires_pre = False,
                  requires_post = False, emitter_memory = [] \<rparr>"

definition ex_env :: collaborators where
  "ex_env =
     \<lparr> box_filling_fitness = (\<lambda>cs. 1 / 2),
       func_blocks_fitness = (\<lambda>cs. 1 / 4),
       mame_fitness = (\<lambda>cs. 1),
       mami_fitness = (\<lambda>cs. 0),
       create_new_pool = (\<lambda>pop gen n minimize. Inl (EvoException ''no offspring'')),
       add_ll_strings = (\<lambda>cs. cs),
       set_structure = (\<lambda>cs. cs\<lparr>priv_content := Some ex_structure\<rparr>),
       subdivide_solutions = (\<lambda>lcs. lcs),
       apply_rules = (\<lambda>i. [(CandidateSolution_init ''cockpit-corridor-thruster'' None)\<lparr>is_feasible := False, ncv := 2\<rparr>]),
       add_external_hull = (\<lambda>hb s. s),
       set_color = (\<lambda>s. s),
       rotate = (\<lambda>s. s),
       prepare_dataset = (\<lambda>pop. map (\<lambda>cs. (representation cs, c_fitness cs)) pop),
       buffer_insert = (\<lambda>buf xi yi. buf @ [(xi, yi)]),
       buffer_get = (\<lambda>buf. if buf = [] then Inl EmptyBufferException else Inr (map fst buf, map snd buf)),
       estimator_fit = (\<lambda>est xs ys. est),
       train_estimator = (\<lambda>est xs ys. est),
       insert_cs = ex_insert_cs,
       remove_old = (\<lambda>b. b),
       bin_age = ex_bin_age,
       subdividable = (\<lambda>b. True),
       pick_bin = (\<lambda>em g. (FlatBins [], em)),
       pre_step = (\<lambda>em g sel ex. em),
       post_step = (\<lambda>em g. em),
       get_emitter_by_str = (\<lambda>name. ex_emitter),
       choose_bandit = (\<lambda>ag. (''random-emitter;median'', ag)),
       reward_bandit = (\<lambda>ag action r. ag) \<rparr>"

definition ex_bc :: BehaviorCharacterization where
  "ex_bc = \<lparr> bc_call = (\<lambda>cs. 1), bc_bounds = Some (0, 10) \<rparr>"

text \<open>An archive with a grid of one row and two columns, both bins empty, as the constructor leaves it.\<close>

definition ex_me :: MAPElites where
  "ex_me =
     \<lparr> feasible_fitnesses = [],
       me_b_descs = (ex_bc, ex_bc),
       estimator = None,
       emitter = Some ex_emitter,
       agent = None,
       agent_rewards = [],
       buffer = [],
       nsc = 0,
       bin_qnt = (1, 2),
       bin_sizes = ([10], [5, 5]),
       bins = [[MAPBin_init (0, 0) (10, 5) None, MAPBin_init (0, 1) (10, 5) None]],
       hull_builder = None,
       max_f_fitness = 1,
       infeas_fitness_idx = 1,
       allow_res_increase = True,
       allow_aging = True,
       enforce_qnt = True,
       n_new_solutions = 0,
       x_range = (0, 100),
       y_range = (0, 100),
       z_range = (0, 100) \<rparr>"

definition ex_infeasible :: CandidateSolution where
  "ex_infeasible = (CandidateSolution_init ''cockpit-corridor'' (Some ex_structure))\<lparr>is_feasible := False, ncv := 3\<rparr>"

definition ex_feasible :: CandidateSolution where
  "ex_feasible = (CandidateSolution_init ''cockpit-corridor-thruster-gyro'' (Some ex_structure))\<lparr>c_fitness := 3 / 2, age := 5\<rparr>"

definition ex_world :: world where
  "ex_world = \<lparr> error_log = [], pool_calls = [] \<rparr>"





text \<open>The example archive after a freshly assigned feasible solution was inserted.\<close>

definition ex_me_seeded :: MAPElites where
  "ex_me_seeded =
     ex_me\<lparr>bins := [[(MAPBin_init (0, 0) (10, 5) None)\<lparr>priv_feasible := [ex_feasible]\<rparr>,
                       MAPBin_init (0, 1) (10, 5) None]]\<rparr>"

text \<open>
  A grammar that expands to the same infeasible solution, with its structure, in every
  round, and a solver without objectives.
\<close>

definition ex_env_repeating :: collaborators where
  "ex_env_repeating =
     ex_env\<lparr>apply_rules :=
              (\<lambda>i. [(CandidateSolution_init ''cockpit-corridor-thruster'' (Some ex_structure))
                       \<lparr>is_feasible := False, ncv := 2\<rparr>])\<rparr>"

definition ex_solver :: FI2PopSolver where
  "ex_solver = \<lparr> fi_feasible_fitnesses = [], fi_nsc = 0 \<rparr>"

section \<open>Verified properties\<close>

subsection \<open>C9: content is set at most once\<close>

lemma set_content_all_keeps:
  "priv_content cs = Some s \<Longrightarrow> priv_content (set_content_all cs rest) = Some s"
  by (induction rest arbitrary: cs) (auto simp: set_content_def)

text \<open>
  C9. On a solution whose content is set, \<^verbatim>\<open>set_content\<close> raises and leaves the solution
  as it was. On a solution without content it stores the content and the number of its
  blocks; and whatever is passed to later calls, the content stays the one of the first.
\<close>

theorem set_content_at_most_once:
  "(priv_content cs = Some s \<longrightarrow>
      set_content cs c = (Inl (PyException ''Structure already exists for this CandidateSolution.''), cs)) \<and>
   (priv_content cs = None \<longrightarrow>
      set_content cs c = (Inr (), cs\<lparr>priv_content := Some c, n_blocks := length (priv_blocks c)\<rparr>) \<and>
      priv_content (set_content_all cs (c # rest)) = Some c)"
  using set_content_all_keeps [of "snd (set_content cs c)" c rest]
  by (auto simp: set_content_def)

theorem set_content_at_most_once_witness:
  "set_content (CandidateSolution_init ''x'' (Some ex_structure)) ex_structure2 =
     (Inl (PyException ''Structure already exists for this CandidateSolution.''),
      CandidateSolution_init ''x'' (Some ex_structure)) \<and>
   set_content (CandidateSolution_init ''x'' None) ex_structure =
     (Inr (), (CandidateSolution_init ''x'' None)\<lparr>priv_content := Some ex_structure, n_blocks := 2\<rparr>) \<and>
   priv_content (set_content_all (CandidateSolution_init ''x'' None) [ex_structure, ex_structure2, ex_structure2]) =
     Some ex_structure"
  using set_content_at_most_once [of "CandidateSolution_init ''x'' (Some ex_structure)" ex_structure ex_structure2 "[]"]
        set_content_at_most_once [of "CandidateSolution_init ''x'' None" ex_structure ex_structure
                                     "[ex_structure2, ex_structure2]"]
  by (simp add: CandidateSolution_init_def ex_structure_def set_content_def)

subsection \<open>C1: fitness of an infeasible solution\<close>

text \<open>
  C1. For an infeasible solution, \<^verbatim>\<open>compute_fitness\<close> returns \<^verbatim>\<open>cs.ncv\<close> when no
  estimator is configured. When an estimator that the configuration supports is
  configured but not trained, it returns \<^verbatim>\<open>EPSILON_F\<close>; for a quantile estimator it
  has then set \<^verbatim>\<open>cs.fitness\<close> to three epsilons and selected the entry at
  \<^verbatim>\<open>infeas_fitness_idx\<close>. With a trained quantile estimator it stores the predicted
  triple in \<^verbatim>\<open>cs.fitness\<close> and returns its entry at \<^verbatim>\<open>infeas_fitness_idx\<close>. The
  index is one of 0, 1, 2, the values the archive ever gives it.
\<close>

theorem compute_fitness_infeasible:
  assumes "\<not> is_feasible cs"
  shows "(estimator me = None \<longrightarrow>
            compute_fitness cfg env me cs =
              Inr (of_int (ncv cs), cs\<lparr>representation := infeasible_representation env cs\<rparr>)) \<and>
         (\<forall>est. estimator me = Some est \<and> estimator_supported cfg est \<and> \<not> is_trained est \<and>
                infeas_fitness_idx me \<in> {0, 1, 2} \<longrightarrow>
            (\<exists>cs'. compute_fitness cfg env me cs = Inr (EPSILON_F cfg, cs') \<and>
                   (\<forall>p. est = QuantileEstimator False p \<longrightarrow>
                      cs' = cs\<lparr>representation := infeasible_representation env cs,
                               fitness := [EPSILON_F cfg, EPSILON_F cfg, EPSILON_F cfg]\<rparr>))) \<and>
         (\<forall>predict lo med hi.
            estimator me = Some (QuantileEstimator True predict) \<and> USE_TORCH cfg \<and>
            predict (infeasible_representation env cs) = [lo, med, hi] \<and>
            infeas_fitness_idx me \<in> {0, 1, 2} \<longrightarrow>
            compute_fitness cfg env me cs =
              Inr ([lo, med, hi] ! nat (infeas_fitness_idx me),
                   cs\<lparr>representation := infeasible_representation env cs, fitness := [lo, med, hi]\<rparr>))"
proof (intro conjI allI impI)
  assume "estimator me = None"
  with assms show "compute_fitness cfg env me cs =
      Inr (of_int (ncv cs), cs\<lparr>representation := infeasible_representation env cs\<rparr>)"
    by (simp add: compute_fitness_def infeasible_representation_def)
next
  fix est
  assume "estimator me = Some est \<and> estimator_supported cfg est \<and> \<not> is_trained est \<and>
          infeas_fitness_idx me \<in> {0, 1, 2}"
  with assms show "\<exists>cs'. compute_fitness cfg env me cs = Inr (EPSILON_F cfg, cs') \<and>
       (\<forall>p. est = QuantileEstimator False p \<longrightarrow>
          cs' = cs\<lparr>representation := infeasible_representation env cs,
                   fitness := [EPSILON_F cfg, EPSILON_F cfg, EPSILON_F cfg]\<rparr>)"
    by (cases est) (auto simp: compute_fitness_def infeasible_representation_def py_index_def Let_def)
next
  fix predict lo med hi
  assume "estimator me = Some (QuantileEstimator True predict) \<and> USE_TORCH cfg \<and>
          predict (infeasible_representation env cs) = [lo, med, hi] \<and>
          infeas_fitness_idx me \<in> {0, 1, 2}"
  with assms show "compute_fitness cfg env me cs =
              Inr ([lo, med, hi] ! nat (infeas_fitness_idx me),
                   cs\<lparr>representation := infeasible_representation env cs, fitness := [lo, med, hi]\<rparr>)"
    by (auto simp: compute_fitness_def infeasible_representation_def py_index_def Let_def)
qed

theorem compute_fitness_infeasible_witness:
  "\<not> is_feasible ex_infeasible \<and>
   compute_fitness ex_cfg ex_env ex_me ex_infeasible =
     Inr (3, ex_infeasible\<lparr>representation := [1 / 2, 1 / 4, 1, 0]\<rparr>) \<and>
   compute_fitness ex_cfg ex_env (ex_me\<lparr>estimator := Some (QuantileEstimator False (\<lambda>r. []))\<rparr>) ex_infeasible =
     Inr (1 / 1000, ex_infeasible\<lparr>representation := [1 / 2, 1 / 4, 1, 0],
                                  fitness := [1 / 1000, 1 / 1000, 1 / 1000]\<rparr>) \<and>
   compute_fitness ex_cfg ex_env (ex_me\<lparr>estimator := Some (GaussianEstimator False (\<lambda>r. 7))\<rparr>) ex_infeasible =
     Inr (1 / 1000, ex_infeasible\<lparr>representation := [1 / 2, 1 / 4, 1, 0]\<rparr>) \<and>
   compute_fitness ex_cfg ex_env
       (ex_me\<lparr>estimator := Some (QuantileEstimator True (\<lambda>r. [1 / 10, 2 / 10, 3 / 10])),
              infeas_fitness_idx := 2\<rparr>) ex_infeasible =
     Inr (3 / 10, ex_infeasible\<lparr>representation := [1 / 2, 1 / 4, 1, 0], fitness := [1 / 10, 2 / 10, 3 / 10]\<rparr>)"
proof -
  have f: "\<not> is_feasible ex_infeasible"
    by (simp add: ex_infeasible_def CandidateSolution_init_def)
  have r: "infeasible_representation ex_env ex_infeasible = [1 / 2, 1 / 4, 1, 0]"
    by (simp add: infeasible_representation_def ex_env_def)
  have n: "ncv ex_infeasible = 3"
    by (simp add: ex_infeasible_def CandidateSolution_init_def)
  note t = compute_fitness_infeasible [OF f, where cfg = ex_cfg and env = ex_env]
  have a: "compute_fitness ex_cfg ex_env ex_me ex_infeasible =
     Inr (3, ex_infeasible\<lparr>representation := [1 / 2, 1 / 4, 1, 0]\<rparr>)"
    using t [where me = ex_me] by (simp add: r n ex_me_def)
  have b: "compute_fitness ex_cfg ex_env (ex_me\<lparr>estimator := Some (QuantileEstimator False (\<lambda>r. []))\<rparr>) ex_infeasible =
     Inr (1 / 1000, ex_infeasible\<lparr>representation := [1 / 2, 1 / 4, 1, 0],
                                  fitness := [1 / 1000, 1 / 1000, 1 / 1000]\<rparr>)"
    using t [where me = "ex_me\<lparr>estimator := Some (QuantileEstimator False (\<lambda>r. []))\<rparr>"]
    by (auto simp: r ex_me_def ex_cfg_def)
  have c: "compute_fitness ex_cfg ex_env (ex_me\<lparr>estimator := Some (GaussianEstimator False (\<lambda>r. 7))\<rparr>) ex_infeasible =
     Inr (1 / 1000, ex_infeasible\<lparr>representation := [1 / 2, 1 / 4, 1, 0]\<rparr>)"
    using t [where me = "ex_me\<lparr>estimator := Some (GaussianEstimator False (\<lambda>r. 7))\<rparr>"]
    by (auto simp: r ex_me_def ex_cfg_def compute_fitness_def f infeasible_representation_def ex_env_def)
  have d: "compute_fitness ex_cfg ex_env
       (ex_me\<lparr>estimator := Some (QuantileEstimator True (\<lambda>r. [1 / 10, 2 / 10, 3 / 10])),
              infeas_fitness_idx := 2\<rparr>) ex_infeasible =
     Inr (3 / 10, ex_infeasible\<lparr>representation := [1 / 2, 1 / 4, 1, 0], fitness := [1 / 10, 2 / 10, 3 / 10]\<rparr>)"
    using t [where me = "ex_me\<lparr>estimator := Some (QuantileEstimator True (\<lambda>r. [1 / 10, 2 / 10, 3 / 10])),
              infeas_fitness_idx := 2\<rparr>"]
    by (simp add: r ex_me_def ex_cfg_def)
  from f a b c d show ?thesis by blast
qed

subsection \<open>C2: direction of optimisation handed to offspring generation\<close>






subsection \<open>C3: an EvoException skips one population\<close>

lemma step_populations_skip:
  assumes "pop \<noteq> []"
    and "create_new_pool env pop gen (BIN_POP_SIZE cfg) (minimize_flag me pop) = Inl (EvoException msg)"
  shows "step_populations cfg env me gen (pop # pops) generated w =
         step_populations cfg env me gen pops generated (skipped cfg me gen pop msg w)"
  using assms by (simp add: generate_offspring_def Let_def skipped_def)

lemma step_populations_no_evo:
  "step_populations cfg env me gen pops generated w \<noteq> Inl (EvoException msg)"
proof (induction pops arbitrary: generated w)
  case Nil
  then show ?case by simp
next
  case (Cons pop pops)
  show ?case
  proof (cases "generate_offspring cfg env me gen pop")
    case (Inr new_pool)
    with Cons show ?thesis by (simp add: Let_def)
  next
    case (Inl e)
    with Cons show ?thesis by (cases e) (simp_all add: Let_def)
  qed
qed

lemma step_populations_append:
  "step_populations cfg env me gen (xs @ ys) generated w =
     (case step_populations cfg env me gen xs generated w of
        Inl e \<Rightarrow> Inl e
      | Inr (g, w1) \<Rightarrow> step_populations cfg env me gen ys g w1)"
proof (induction xs arbitrary: generated w)
  case Nil
  then show ?case by simp
next
  case (Cons pop xs)
  show ?case
  proof (cases "generate_offspring cfg env me gen pop")
    case (Inr new_pool)
    with Cons show ?thesis by (simp add: Let_def)
  next
    case (Inl e)
    with Cons show ?thesis by (cases e) (simp_all add: Let_def)
  qed
qed

text \<open>
  C3. If \<^verbatim>\<open>create_new_pool\<close> raises an \<^verbatim>\<open>EvoException\<close> for a population, the loop
  of \<^verbatim>\<open>_step\<close> logs it and goes on with the remaining populations, the generated
  solutions unchanged. So with two populations the step is the step on the other
  population alone, whether the failing one comes first or second, up to the logged
  message and the recorded call; without an estimator and with nothing else to process it
  returns no solutions; and the loop never ends in an \<^verbatim>\<open>EvoException\<close>.
\<close>

theorem step_survives_evo_exception:
  assumes "pop \<noteq> []"
    and "create_new_pool env pop gen (BIN_POP_SIZE cfg) (minimize_flag me pop) = Inl (EvoException msg)"
  shows "step_populations cfg env me gen (pop # pops) generated w =
           step_populations cfg env me gen pops generated (skipped cfg me gen pop msg w) \<and>
         step cfg env me [pop, other] gen w = step cfg env me [other] gen (skipped cfg me gen pop msg w) \<and>
         step cfg env me [other, pop] gen w =
           (case step cfg env me [other] gen w of
              Inl e \<Rightarrow> Inl e
            | Inr (g, me1, w1) \<Rightarrow> Inr (g, me1, skipped cfg me gen pop msg w1)) \<and>
         (estimator me = None \<longrightarrow> step cfg env me [pop, []] gen w = Inr ([], me, skipped cfg me gen pop msg w)) \<and>
         (\<forall>m. step_populations cfg env me gen pops generated w \<noteq> Inl (EvoException m))"
proof (intro conjI allI impI)
  show a: "\<And>pops generated w. step_populations cfg env me gen (pop # pops) generated w =
           step_populations cfg env me gen pops generated (skipped cfg me gen pop msg w)"
    using assms by (rule step_populations_skip)
  show "step cfg env me [pop, other] gen w = step cfg env me [other] gen (skipped cfg me gen pop msg w)"
    unfolding step_def a ..
  have "step_populations cfg env me gen ([other] @ [pop]) [] w =
          (case step_populations cfg env me gen [other] [] w of
             Inl e \<Rightarrow> Inl e
           | Inr (g, w1) \<Rightarrow> Inr (g, skipped cfg me gen pop msg w1))"
    by (simp only: step_populations_append a step_populations.simps(1))
  then have "step_populations cfg env me gen [other, pop] [] w =
          (case step_populations cfg env me gen [other] [] w of
             Inl e \<Rightarrow> Inl e
           | Inr (g, w1) \<Rightarrow> Inr (g, skipped cfg me gen pop msg w1))"
    by (simp only: append.simps)
  then show "step cfg env me [other, pop] gen w =
           (case step cfg env me [other] gen w of
              Inl e \<Rightarrow> Inl e
            | Inr (g, me1, w1) \<Rightarrow> Inr (g, me1, skipped cfg me gen pop msg w1))"
    unfolding step_def by (auto simp only: Let_def sum.case prod.case split: sum.splits prod.splits)
  show "step cfg env me [pop, []] gen w = Inr ([], me, skipped cfg me gen pop msg w)" if "estimator me = None"
    using that unfolding step_def a by (simp add: step_estimator_def)
  show "\<And>m. step_populations cfg env me gen pops generated w \<noteq> Inl (EvoException m)"
    by (rule step_populations_no_evo)
qed

theorem step_survives_evo_exception_witness:
  "[ex_feasible] \<noteq> [] \<and>
   create_new_pool ex_env [ex_feasible] 0 (BIN_POP_SIZE ex_cfg) (minimize_flag ex_me [ex_feasible]) =
     Inl (EvoException ''no offspring'') \<and>
   step ex_cfg ex_env ex_me [[ex_feasible], [ex_infeasible]] 0 ex_world =
     step ex_cfg ex_env ex_me [[ex_infeasible]] 0 (skipped ex_cfg ex_me 0 [ex_feasible] ''no offspring'' ex_world) \<and>
   step ex_cfg ex_env ex_me [[ex_feasible], []] 0 ex_world =
     Inr ([], ex_me, skipped ex_cfg ex_me 0 [ex_feasible] ''no offspring'' ex_world)"
proof -
  have h1: "[ex_feasible] \<noteq> []" by simp
  have h2: "create_new_pool ex_env [ex_feasible] 0 (BIN_POP_SIZE ex_cfg) (minimize_flag ex_me [ex_feasible]) =
     Inl (EvoException ''no offspring'')"
    by (simp add: ex_env_def)
  have h3: "estimator ex_me = None" by (simp add: ex_me_def)
  from step_survives_evo_exception [OF h1 h2, where other = "[ex_infeasible]"]
       step_survives_evo_exception [OF h1 h2, where other = "[]"] h1 h2 h3
  show ?thesis by blast
qed

subsection \<open>C10: the reciprocal of the intersection area\<close>











subsection \<open>C5: the unguarded division of the fitness reward\<close>

lemma fitness_reward_cs_prev:
  "age cs \<noteq> CS_MAX_AGE cfg \<longrightarrow> c_fitness cs \<le> 0 \<Longrightarrow> fst (fitness_reward_cs cfg (0, cur) cs) = 0"
  by (auto simp: fitness_reward_cs_def)

lemma fitness_reward_bin_prev:
  "\<forall>cs \<in> set pop. age cs \<noteq> CS_MAX_AGE cfg \<longrightarrow> c_fitness cs \<le> 0 \<Longrightarrow>
   fst pc = 0 \<Longrightarrow> fst (foldl (fitness_reward_cs cfg) pc pop) = 0"
proof (induction pop arbitrary: pc)
  case Nil
  then show ?case by simp
next
  case (Cons cs pop)
  obtain cur where pc: "pc = (0, cur)" using Cons.prems(2) by (cases pc) simp
  have "fst (fitness_reward_cs cfg pc cs) = 0"
    unfolding pc using Cons.prems(1) by (intro fitness_reward_cs_prev) simp
  with Cons show ?case by simp
qed

lemma fitness_reward_grid_prev:
  "\<forall>b \<in> set bs. \<forall>cs \<in> set (priv_feasible b). age cs \<noteq> CS_MAX_AGE cfg \<longrightarrow> c_fitness cs \<le> 0 \<Longrightarrow>
   fst pc = 0 \<Longrightarrow>
   fst (foldl (\<lambda>pc map_bin. foldl (fitness_reward_cs cfg) pc (priv_feasible map_bin)) pc bs) = 0"
proof (induction bs arbitrary: pc)
  case Nil
  then show ?case by simp
next
  case (Cons b bs)
  have "fst (foldl (fitness_reward_cs cfg) pc (priv_feasible b)) = 0"
    using Cons.prems by (intro fitness_reward_bin_prev) simp_all
  with Cons show ?case by simp
qed

text \<open>
  C5. The division in \<^verbatim>\<open>fitness_reward\<close> is unguarded. In an archive whose feasible
  individuals are no older than \<^verbatim>\<open>CS_MAX_AGE\<close> says and where none with an age below
  the maximum has a positive composite fitness, \<^verbatim>\<open>prev_best\<close> is still 0 when
  \<^verbatim>\<open>fit_diff / prev_best\<close> is computed, and the division raises. The archive as it
  is constructed, and the archive after its first insertion, are such states.
\<close>

theorem fitness_reward_divides_by_zero:
  assumes "\<forall>b \<in> set (concat (bins me)). \<forall>cs \<in> set (priv_feasible b).
             age cs \<le> CS_MAX_AGE cfg \<and> (age cs < CS_MAX_AGE cfg \<longrightarrow> c_fitness cs \<le> 0)"
  shows "fst (fitness_reward_best cfg me) = 0 \<and> fitness_reward cfg me = Inl ZeroDivisionError"
proof -
  have "\<forall>b \<in> set (concat (bins me)). \<forall>cs \<in> set (priv_feasible b).
          age cs \<noteq> CS_MAX_AGE cfg \<longrightarrow> c_fitness cs \<le> 0"
    using assms by (metis order_le_less)
  then have "fst (fitness_reward_best cfg me) = 0"
    unfolding fitness_reward_best_def by (intro fitness_reward_grid_prev) simp_all
  then show ?thesis
    by (cases "fitness_reward_best cfg me") (simp add: fitness_reward_def py_truediv_def)
qed

lemma ex_seeded_reachable: "update_bins ex_env ex_me [ex_feasible] = Inr ex_me_seeded"
  by (simp add: update_bins_def ex_me_def ex_me_seeded_def ex_bc_def bin_lower_bounds_def digitize_def
        ex_feasible_def CandidateSolution_init_def grid_insert_def np_index_def ex_env_def
        ex_insert_cs_def cs_in_def MAPBin_init_def)

theorem fitness_reward_divides_by_zero_witness:
  "update_bins ex_env ex_me [ex_feasible] = Inr ex_me_seeded \<and>
   concat (map priv_feasible (concat (bins ex_me_seeded))) = [ex_feasible] \<and>
   age ex_feasible = CS_MAX_AGE ex_cfg \<and> 0 < c_fitness ex_feasible \<and>
   fitness_reward ex_cfg ex_me_seeded = Inl ZeroDivisionError \<and>
   fitness_reward ex_cfg ex_me = Inl ZeroDivisionError"
proof -
  have h1: "\<forall>b \<in> set (concat (bins ex_me_seeded)). \<forall>cs \<in> set (priv_feasible b).
       age cs \<le> CS_MAX_AGE ex_cfg \<and> (age cs < CS_MAX_AGE ex_cfg \<longrightarrow> c_fitness cs \<le> 0)"
    by (simp add: ex_me_seeded_def ex_me_def MAPBin_init_def ex_feasible_def ex_cfg_def CandidateSolution_init_def)
  have h2: "\<forall>b \<in> set (concat (bins ex_me)). \<forall>cs \<in> set (priv_feasible b).
       age cs \<le> CS_MAX_AGE ex_cfg \<and> (age cs < CS_MAX_AGE ex_cfg \<longrightarrow> c_fitness cs \<le> 0)"
    by (simp add: ex_me_def MAPBin_init_def)
  have h3: "concat (map priv_feasible (concat (bins ex_me_seeded))) = [ex_feasible]"
    by (simp add: ex_me_seeded_def ex_me_def MAPBin_init_def)
  have h4: "age ex_feasible = CS_MAX_AGE ex_cfg \<and> 0 < c_fitness ex_feasible"
    by (simp add: ex_feasible_def ex_cfg_def CandidateSolution_init_def)
  from fitness_reward_divides_by_zero [OF h1] fitness_reward_divides_by_zero [OF h2] h3 h4 ex_seeded_reachable
  show ?thesis by blast
qed

subsection \<open>C8: duplicates in the initial populations\<close>

lemma fi_add_solution_distinct:
  "distinct (map string (fst pops)) \<Longrightarrow> distinct (map string (fst (fi_add_solution solver pops_size pops cs)))"
  by (cases pops) (auto simp: fi_add_solution_def cs_in_def Let_def)

lemma fi_add_solutions_distinct:
  "distinct (map string (fst pops)) \<Longrightarrow>
   distinct (map string (fst (foldl (fi_add_solution solver pops_size) pops lcs)))"
  by (induction lcs arbitrary: pops) (simp_all add: fi_add_solution_distinct)

lemma fi_retries_distinct:
  "distinct (map string (fst pops)) \<Longrightarrow>
   distinct (map string (fst (fi_retries env solver pops_size n_retries rounds pops)))"
  by (induction rounds arbitrary: pops) (simp_all add: Let_def fi_add_solutions_distinct)

text \<open>
  C8. The feasible population that \<^verbatim>\<open>FI2PopSolver._generate_initial_populations\<close>
  returns never holds two solutions with the same string. The infeasible one can: its
  branch tests \<^verbatim>\<open>cs not in feasible_pop\<close> too. With a grammar that expands to the
  same infeasible solution in two rounds, the infeasible population holds it twice, in
  the solver and in \<^verbatim>\<open>MAPElites.generate_initial_populations\<close> alike.
\<close>

theorem initial_infeasible_population_repeats:
  "distinct (map string (fst (fi_generate_initial_populations env solver pops_size n_retries))) \<and>
   map string (snd (fi_generate_initial_populations ex_env_repeating ex_solver 2 2)) =
     [''cockpit-corridor-thruster'', ''cockpit-corridor-thruster''] \<and>
   map_sum id (\<lambda>pops. map string (snd pops)) (me_initial_populations ex_cfg ex_env_repeating ex_me 2 2) =
     Inr [''cockpit-corridor-thruster'', ''cockpit-corridor-thruster'']"
proof (intro conjI)
  show "distinct (map string (fst (fi_generate_initial_populations env solver pops_size n_retries)))"
    unfolding fi_generate_initial_populations_def by (rule fi_retries_distinct) simp
  have u: "[0..<2] = [0, Suc 0]" by (simp add: numeral_2_eq_2)
  show "map string (snd (fi_generate_initial_populations ex_env_repeating ex_solver 2 2)) =
     [''cockpit-corridor-thruster'', ''cockpit-corridor-thruster'']"
    by (simp add: fi_generate_initial_populations_def u ex_env_repeating_def ex_env_def fi_add_solution_def
          CandidateSolution_init_def cs_in_def)
  show "map_sum id (\<lambda>pops. map string (snd pops)) (me_initial_populations ex_cfg ex_env_repeating ex_me 2 2) =
     Inr [''cockpit-corridor-thruster'', ''cockpit-corridor-thruster'']"
    by (simp add: me_initial_populations_def u ex_env_repeating_def ex_env_def me_add_solution_def
          CandidateSolution_init_def cs_in_def prepare_cs_content_def content_def ex_me_def
          within_range_def ex_structure_def assign_fitness_def compute_fitness_def
          set_behavior_descriptors_def ex_bc_def ex_cfg_def)
qed

subsection \<open>C4: a random step without valid bins\<close>

text \<open>
  C4. When no bin holds a feasible individual once the bins have aged, \<^verbatim>\<open>rand_step\<close>
  hands the empty list of valid bins to \<^verbatim>\<open>random.choice\<close>, which raises
  \<^verbatim>\<open>IndexError\<close>: the step raises instead of returning.
\<close>

theorem rand_step_no_valid_bins:
  assumes "valid_bins (age_bins env me (- 1)) = []"
  shows "rand_step cfg env me gen rnd w = Inl IndexError"
  using assms by (simp add: rand_step_def random_choice_def)

theorem rand_step_no_valid_bins_witness:
  "valid_bins ex_me = [] \<and> valid_bins (age_bins ex_env ex_me (- 1)) = [] \<and>
   rand_step ex_cfg ex_env ex_me 0 0 ex_world = Inl IndexError"
proof -
  have h: "valid_bins (age_bins ex_env ex_me (- 1)) = []"
    by (simp add: valid_bins_def age_bins_def ex_me_def ex_env_def ex_bin_age_def MAPBin_init_def)
  have "valid_bins ex_me = []"
    by (simp add: valid_bins_def ex_me_def MAPBin_init_def)
  with h rand_step_no_valid_bins [OF h] show ?thesis by blast
qed

subsection \<open>C6: the search for neighbours in an archive without infeasible solutions\<close>

lemma scan_offsets_empty:
  assumes "\<And>r c. in_shape g (r, c) \<Longrightarrow> pool_of pop (g ! nat r ! nat c) = []"
  shows "scan_offsets g pop [] idx offs (new_pop, to_inspect) =
           (new_pop, to_inspect @ filter (in_shape g) (map (\<lambda>off. (fst idx + fst off, snd idx + snd off)) offs))"
  by (induction offs arbitrary: to_inspect) (simp_all add: assms Let_def)

lemma scan_inspecting_empty:
  assumes "\<And>r c. in_shape g (r, c) \<Longrightarrow> pool_of pop (g ! nat r ! nat c) = []"
  shows "scan_inspecting g pop [] offs inspecting (new_pop, to_inspect) =
           (new_pop, to_inspect @
              concat (map (\<lambda>idx. filter (in_shape g) (map (\<lambda>off. (fst idx + fst off, snd idx + snd off)) offs))
                          inspecting))"
  by (induction inspecting arbitrary: to_inspect) (simp_all add: scan_offsets_empty [OF assms])

lemma shape_rect:
  assumes "length g = rows" "\<forall>row \<in> set g. length row = cols" "0 < rows"
  shows "shape g = (rows, cols)"
  using assms by (cases g) (auto simp: shape_def)

lemma neighbour_in_shape:
  assumes sh: "shape g = (rows, cols)" and big: "1 < rows * cols"
    and offs: "set offs = set neighbour_offsets" and idx: "in_shape g idx"
  shows "\<exists>off \<in> set offs. in_shape g (fst idx + fst off, snd idx + snd off)"
proof -
  have r: "0 \<le> fst idx" "fst idx < int rows" "0 \<le> snd idx" "snd idx < int cols"
    using idx sh by (simp_all add: in_shape_def)
  have mem: "(0, 1) \<in> set offs" "(0, - 1) \<in> set offs" "(1, 0) \<in> set offs" "(- 1, 0) \<in> set offs"
    unfolding offs by (simp_all add: neighbour_offsets_def)
  have "1 < rows \<or> 1 < cols"
    using big by (cases "rows \<le> 1"; cases "cols \<le> 1") (auto simp: le_Suc_eq)
  then consider (a) "snd idx + 1 < int cols" | (b) "1 \<le> snd idx" | (c) "fst idx + 1 < int rows" | (d) "1 \<le> fst idx"
    using r by linarith
  then show ?thesis
  proof cases
    case a
    with r mem(1) sh show ?thesis by (intro bexI [of _ "(0, 1)"]) (simp_all add: in_shape_def)
  next
    case b
    with r mem(2) sh show ?thesis by (intro bexI [of _ "(0, - 1)"]) (simp_all add: in_shape_def)
  next
    case c
    with r mem(3) sh show ?thesis by (intro bexI [of _ "(1, 0)"]) (simp_all add: in_shape_def)
  next
    case d
    with r mem(4) sh show ?thesis by (intro bexI [of _ "(- 1, 0)"]) (simp_all add: in_shape_def)
  qed
qed

lemma seek_loop_never_returns:
  assumes empty: "\<And>r c. in_shape g (r, c) \<Longrightarrow> pool_of pop (g ! nat r ! nat c) = []"
    and sh: "shape g = (rows, cols)" and big: "1 < rows * cols"
    and offs: "set offs = set neighbour_offsets"
    and returns: "seek_loop g' pop' offs' inspecting new_pop = Some res"
  shows "g' = g \<Longrightarrow> pop' = pop \<Longrightarrow> offs' = offs \<Longrightarrow> new_pop = [] \<Longrightarrow>
         inspecting \<noteq> [] \<Longrightarrow> \<forall>idx \<in> set inspecting. in_shape g idx \<Longrightarrow> False"
proof (induction g' pop' offs' inspecting new_pop res rule: seek_loop.raw_induct)
  case (1 loop g' pop' offs' inspecting new_pop res)
  define nb where
    "nb = (\<lambda>idx. filter (in_shape g) (map (\<lambda>off. (fst idx + fst off, snd idx + snd off)) offs))"
  have scan: "scan_inspecting g pop [] offs inspecting ([], []) = ([], concat (map nb inspecting))"
    by (simp add: scan_inspecting_empty [OF empty] nb_def)
  obtain idx where idx: "idx \<in> set inspecting" "in_shape g idx"
    using "1.prems" by (cases inspecting) auto
  from neighbour_in_shape [OF sh big offs idx(2)]
  obtain off where off: "off \<in> set offs" "in_shape g (fst idx + fst off, snd idx + snd off)"
    by blast
  have "(fst idx + fst off, snd idx + snd off) \<in> set (nb idx)"
    using off by (simp add: nb_def image_iff) (rule bexI [of _ off], simp_all)
  with idx(1) have "(fst idx + fst off, snd idx + snd off) \<in> set (concat (map nb inspecting))"
    by auto
  then have ne: "concat (map nb inspecting) \<noteq> []"
    by (metis empty_iff empty_set)
  have inr: "\<forall>i \<in> set (concat (map nb inspecting)). in_shape g i"
    by (auto simp: nb_def)
  have l: "loop g pop offs (concat (map nb inspecting)) [] = Some res"
    using "1.hyps" "1.prems"(1-4) ne by (auto simp: scan split: if_splits)
  from "1.IH" [OF l refl refl refl refl ne inr] show False .
qed (rule returns)

text \<open>
  C6. On a grid of more than one bin in which every infeasible population is empty,
  \<^verbatim>\<open>seek_nearest_valid\<close> started for the infeasible population from a non-empty list
  of bin indices in range does not return: every round queues the neighbours of the
  inspected bins again, as nothing is ever recorded in \<^verbatim>\<open>past_idxs\<close>, so that
  \<^verbatim>\<open>to_inspect\<close> is never empty and \<^verbatim>\<open>new_pop\<close> stays empty.
\<close>

theorem seek_nearest_valid_never_returns:
  assumes "length (bins me) = rows" and "\<forall>row \<in> set (bins me). length row = cols" and "1 < rows * cols"
    and "\<forall>row \<in> set (bins me). \<forall>cbin \<in> set row. priv_infeasible cbin = []"
    and "set offsets = set neighbour_offsets"
    and "bin_idxs \<noteq> []"
    and "\<forall>idx \<in> set bin_idxs. 0 \<le> fst idx \<and> fst idx < int rows \<and> 0 \<le> snd idx \<and> snd idx < int cols"
  shows "seek_nearest_valid me offsets bin_idxs ''infeasible'' = None"
proof -
  have "0 < rows" using assms(3) by (cases rows) simp_all
  with assms(1,2) have sh: "shape (bins me) = (rows, cols)" by (intro shape_rect) simp_all
  have empty: "pool_of ''infeasible'' (bins me ! nat r ! nat c) = []" if "in_shape (bins me) (r, c)" for r c
  proof -
    from that sh have rc: "nat r < rows" "nat c < cols"
      by (simp_all add: in_shape_def nat_less_iff)
    then have row: "bins me ! nat r \<in> set (bins me)" using assms(1) by simp
    then have "length (bins me ! nat r) = cols" using assms(2) by simp
    with rc have "bins me ! nat r ! nat c \<in> set (bins me ! nat r)" by simp
    with row assms(4) show ?thesis
      by (simp add: pool_of_def)
  qed
  have inr: "\<forall>idx \<in> set bin_idxs. in_shape (bins me) idx"
    using assms(7) sh by (simp add: in_shape_def)
  show ?thesis
  proof (cases "seek_nearest_valid me offsets bin_idxs ''infeasible''")
    case None
    then show ?thesis .
  next
    case (Some res)
    then have "seek_loop (bins me) ''infeasible'' offsets bin_idxs [] = Some res"
      by (simp add: seek_nearest_valid_def)
    from seek_loop_never_returns [OF empty sh assms(3,5) this refl refl refl refl assms(6) inr]
    show ?thesis ..
  qed
qed

theorem seek_nearest_valid_never_returns_witness:
  "map length (bins ex_me) = [2] \<and>
   concat (map priv_infeasible (concat (bins ex_me))) = [] \<and>
   seek_nearest_valid ex_me neighbour_offsets [(0, 0)] ''infeasible'' = None"
proof -
  have h1: "length (bins ex_me) = 1" by (simp add: ex_me_def)
  have h2: "\<forall>row \<in> set (bins ex_me). length row = 2" by (simp add: ex_me_def)
  have h3: "(1::nat) < 1 * 2" by simp
  have h4: "\<forall>row \<in> set (bins ex_me). \<forall>cbin \<in> set row. priv_infeasible cbin = []"
    by (simp add: ex_me_def MAPBin_init_def)
  have h5: "set neighbour_offsets = set neighbour_offsets" ..
  have h6: "[(0, 0)] \<noteq> ([] :: (int \<times> int) list)" by simp
  have h7: "\<forall>idx \<in> set [(0::int, 0::int)]. 0 \<le> fst idx \<and> fst idx < int 1 \<and> 0 \<le> snd idx \<and> snd idx < int 2"
    by simp
  have h8: "map length (bins ex_me) = [2]" by (simp add: ex_me_def)
  have h9: "concat (map priv_infeasible (concat (bins ex_me))) = []"
    by (simp add: ex_me_def MAPBin_init_def)
  from seek_nearest_valid_never_returns [OF h1 h2 h3 h4 h5 h6 h7] h8 h9
  show ?thesis by blast
qed

end
